theory Spec2Isabelle
  imports Complex_Main
begin

section \<open>The movement tracker component\<close>

text \<open>
  A shallow embedding of the React component \<open>MovementTracker\<close>: its hook state and its
  refs are one record, every callback is a function from state to state, and what a
  callback reads from outside the state is a parameter of the function:
  \<^item> the wall clock: \<open>addDebugMessage\<close> evaluates
    \<^verbatim>\<open>new Date().toISOString().split('T')[1].split('.')[0]\<close> at each call; a callback takes
    \<open>clk :: nat \<Rightarrow> string\<close>, and \<open>clk k\<close> is the value of that expression at the
    callback's \<open>k\<close>-th call of \<open>addDebugMessage\<close>;
  \<^item> the variables of the closure of a callback that is registered as a listener: the
    \<open>calibration\<close> of \<open>handleMotionData\<close> (the parameter \<open>cal\<close>) and the \<open>measurements\<close> of
    \<open>handleDisconnect\<close> and \<open>calculateFinalStats\<close> (the parameter \<open>ms\<close>); the runtime below
    says which closures are the registered ones.
  The effect that copies \<open>mode\<close> into \<open>modeRef\<close> is a step of its own, \<open>effectModeRef\<close>.

  A JavaScript number is modelled by its value when it is a finite double, and every
  arithmetic operation rounds to the nearest double, ties to even, as IEEE 754 has it.
  NaN, the infinities (a result beyond the largest double) and the sign of zero are
  outside the model. The audio cue, \<open>startTime\<close>, \<open>lastRawData\<close> and \<open>lastParsedData\<close> are
  left out.
\<close>

subsection \<open>Numbers\<close>

text \<open>The nearest integer, the even one of two.\<close>

definition rne :: "real \<Rightarrow> int" where
  "rne q =
     (let n = \<lfloor>q\<rfloor>; f = q - of_int n
      in if f < 1 / 2 then n else if 1 / 2 < f then n + 1 else if even n then n else n + 1)"

text \<open>
  The nearest binary64 number: 53 significant bits at the exponent of \<open>x\<close>, which is at
  least -1022 (below it the subnormal numbers are spaced \<open>2\<^sup>-\<^sup>1\<^sup>0\<^sup>7\<^sup>4\<close> apart).
\<close>

definition round64 :: "real \<Rightarrow> real" where
  "round64 x =
     (if x = 0 then 0
      else let e = max \<lfloor>log 2 \<bar>x\<bar>\<rfloor> (- 1022); u = 2 powi (e - 52)
           in of_int (rne (x / u)) * u)"

text \<open>The operators \<open>+\<close>, \<open>-\<close>, \<open>*\<close> and \<open>/\<close> (by a divisor other than zero) on doubles.\<close>

definition plus64 :: "real \<Rightarrow> real \<Rightarrow> real" where
  "plus64 a b = round64 (a + b)"

definition minus64 :: "real \<Rightarrow> real \<Rightarrow> real" where
  "minus64 a b = round64 (a - b)"

definition times64 :: "real \<Rightarrow> real \<Rightarrow> real" where
  "times64 a b = round64 (a * b)"

definition divide64 :: "real \<Rightarrow> real \<Rightarrow> real" where
  "divide64 a b = round64 (a / b)"

text \<open>
  \<open>Math.sqrt\<close>, the correctly rounded root, and \<open>Math.pow(x, 2)\<close>, which the engines
  compute as \<open>x * x\<close>.
\<close>

definition sqrt64 :: "real \<Rightarrow> real" where
  "sqrt64 a = round64 (sqrt a)"

definition pow2_64 :: "real \<Rightarrow> real" where
  "pow2_64 a = times64 a a"

text \<open>
  A magnitude of at most \<open>10\<^sup>9\<close>. Sums, squares and means of such numbers stay far below
  the largest double, and below the \<open>10\<^sup>2\<^sup>1\<close> from which on \<open>toFixed\<close> prints an exponent;
  the general statements about computed numbers are made for them.
\<close>

definition ordinary :: "real \<Rightarrow> bool" where
  "ordinary v \<longleftrightarrow> \<bar>v\<bar> \<le> 10 ^ 9"

subsection \<open>Data\<close>

datatype Mode = Idle | Connecting | Calibrating | Tracking

text \<open>The parsed payload of a notification, \<open>{x, y, z}\<close>, three finite numbers.\<close>

record RawData =
  rx :: real
  ry :: real
  rz :: real

record Measurement =
  mx :: real
  my :: real
  mz :: real
  timestamp :: real

definition ordinarySample :: "RawData \<Rightarrow> bool" where
  "ordinarySample d \<longleftrightarrow> ordinary (rx d) \<and> ordinary (ry d) \<and> ordinary (rz d)"

definition ordinaryMeasurement :: "Measurement \<Rightarrow> bool" where
  "ordinaryMeasurement m \<longleftrightarrow> ordinary (mx m) \<and> ordinary (mz m) \<and> ordinary (timestamp m)"

record Stats =
  maxDeviation :: string
  avgDeviation :: string
  duration :: string
  samples :: nat

record Calibration =
  cx :: real
  cy :: real
  cz :: real

record SquatPhases =
  bottomPoint :: "real option"
  maxDepth :: real

text \<open>
  The hook state, with \<open>modeRef.current\<close> as \<open>modeRef\<close> and \<open>measurementCountRef.current\<close> as
  \<open>measurementCount\<close> (a count below \<open>2\<^sup>5\<^sup>3\<close>, which the double holds exactly).

  \<open>timelineObject\<close> numbers the array objects that \<open>measurements\<close> has held: every call of
  \<open>setMeasurements\<close> in the source stores a new array, and \<open>useCallback\<close> makes
  \<open>calculateFinalStats\<close> and \<open>handleDisconnect\<close> anew exactly when the array is another one.
\<close>

record State =
  mode :: Mode
  modeRef :: Mode
  calibration :: Calibration
  calibrationSamples :: "Measurement list"
  measurements :: "Measurement list"
  timelineObject :: nat
  currentX :: real
  currentY :: real
  currentZ :: real
  finalStats :: "Stats option"
  error :: "string option"
  calibrationProgress :: real
  debugMessages :: "string list"
  squatPhases :: SquatPhases
  measurementCount :: nat

text \<open>The values of the \<open>useState\<close> and \<open>useRef\<close> initialisers.\<close>

definition initialState :: State where
  "initialState =
     \<lparr>mode = Idle,
      modeRef = Idle,
      calibration = \<lparr>cx = 0, cy = 0, cz = 0\<rparr>,
      calibrationSamples = [],
      measurements = [],
      timelineObject = 0,
      currentX = 0, currentY = 0, currentZ = 0,
      finalStats = None,
      error = None,
      calibrationProgress = 0,
      debugMessages = [],
      squatPhases = \<lparr>bottomPoint = None, maxDepth = 0\<rparr>,
      measurementCount = 0\<rparr>"

definition REQUIRED_CALIBRATION_SAMPLES :: nat where
  "REQUIRED_CALIBRATION_SAMPLES = 10"

text \<open>The literal \<open>0.05\<close>.\<close>

definition SAMPLE_PERIOD :: real where
  "SAMPLE_PERIOD = round64 (5 / 100)"

text \<open>
  The effect \<^verbatim>\<open>useEffect(() => { modeRef.current = mode; }, [mode])\<close>, which React runs
  some time after the render that follows a change of \<open>mode\<close>.
\<close>

definition effectModeRef :: "State \<Rightarrow> State" where
  "effectModeRef s = s\<lparr>modeRef := mode s\<rparr>"

subsection \<open>Numbers as text\<close>

definition digit_char :: "nat \<Rightarrow> char" where
  "digit_char d = ''0123456789'' ! d"

text \<open>The decimal digits of a natural number, as a template literal prints them.\<close>

fun digits :: "nat \<Rightarrow> string" where
  "digits n = (if n < 10 then [digit_char n] else digits (n div 10) @ [digit_char (n mod 10)])"

declare digits.simps [simp del]

text \<open>
  \<open>Number.prototype.toFixed\<close> for a double \<open>v\<close> below \<open>10\<^sup>2\<^sup>1\<close> in magnitude: the sign, then
  the integer \<open>n\<close> nearest to the exact value of \<open>|v| \<times> 10\<^sup>f\<close> (the larger one of two),
  padded with zeros to at least \<open>f + 1\<close> digits, with the point before the last \<open>f\<close>
  digits.
\<close>

definition toFixed :: "real \<Rightarrow> nat \<Rightarrow> string" where
  "toFixed v f =
     (let s = (if v < 0 then ''-'' else '''');
          n = nat \<lfloor>\<bar>v\<bar> * 10 ^ f + 1 / 2\<rfloor>;
          m = digits n;
          m = (if f = 0 then m
               else let m = (if length m \<le> f then replicate (f + 1 - length m) CHR ''0'' @ m else m);
                        k = length m
                    in take (k - f) m @ ''.'' @ drop (k - f) m)
      in s @ m)"

text \<open>The degree sign of the messages, one UTF-16 code unit.\<close>

definition degree_sign :: string where
  "degree_sign = [CHR 0xB0]"

subsection \<open>The diagnostic log\<close>

text \<open>\<open>Array.prototype.slice(-k)\<close>: from index \<open>max (length - k) 0\<close> to the end.\<close>

definition slice_from_end :: "nat \<Rightarrow> 'a list \<Rightarrow> 'a list" where
  "slice_from_end k xs = drop (nat (max (int (length xs) - int k) 0)) xs"

text \<open>The updater passed to \<open>setDebugMessages\<close>; \<open>now\<close> is the clock's time of day.\<close>

definition debugUpdater :: "string \<Rightarrow> string \<Rightarrow> string list \<Rightarrow> string list" where
  "debugUpdater now message prev =
     (let newMessages = prev @ [now @ '' - '' @ message]
      in slice_from_end 5 newMessages)"

definition addDebugMessage :: "string \<Rightarrow> string \<Rightarrow> State \<Rightarrow> State" where
  "addDebugMessage now message s = s\<lparr>debugMessages := debugUpdater now message (debugMessages s)\<rparr>"

text \<open>Appending a sequence of messages, each with the clock reading of its call.\<close>

definition appendAll :: "(string \<times> string) list \<Rightarrow> State \<Rightarrow> State" where
  "appendAll ms s = foldl (\<lambda>s (now, message). addDebugMessage now message s) s ms"

definition entry :: "string \<times> string \<Rightarrow> string" where
  "entry p = fst p @ '' - '' @ snd p"

subsection \<open>Squat phase detection\<close>

text \<open>
  The body of the \<open>for\<close> loop of \<open>detectSquatPhases\<close> at index \<open>i\<close>, on the pair of the
  loop's variables \<open>bottomPoint\<close> and \<open>maxDepth\<close>.
\<close>

definition squatStep :: "Measurement list \<Rightarrow> nat \<Rightarrow> real option \<times> real \<Rightarrow> real option \<times> real" where
  "squatStep data i acc =
     (let prev = mz (data ! (i - 1));
          curr = mz (data ! i);
          next = mz (data ! (i + 1))
      in if curr < prev \<and> curr < next \<and> \<bar>curr\<bar> > \<bar>snd acc\<bar>
         then (Some (timestamp (data ! i)), curr)
         else acc)"

text \<open>The loop \<open>for (let i = ...; i < data.length - 1; i++)\<close>, entered at \<open>i\<close>.\<close>

function squatLoop :: "Measurement list \<Rightarrow> nat \<Rightarrow> real option \<times> real \<Rightarrow> real option \<times> real" where
  "squatLoop data i acc =
     (if int i < int (length data) - 1 then squatLoop data (i + 1) (squatStep data i acc) else acc)"
  by pat_completeness auto
termination
  by (relation "measure (\<lambda>(data, i, acc). length data - i)") auto

declare squatLoop.simps [simp del]

text \<open>\<open>None\<close> is the \<open>null\<close> that the function returns on fewer than three measurements.\<close>

definition detectSquatPhases :: "Measurement list \<Rightarrow> SquatPhases option" where
  "detectSquatPhases data =
     (if length data < 3 then None
      else let r = squatLoop data 1 (None, 0)
           in Some \<lparr>bottomPoint = fst r, maxDepth = snd r\<rparr>)"

text \<open>
  The specification's candidate: an interior index, from 1 to \<open>length - 2\<close>, whose \<open>z\<close> is
  strictly below both neighbours.
\<close>

definition spec_candidate :: "Measurement list \<Rightarrow> nat \<Rightarrow> bool" where
  "spec_candidate data i \<longleftrightarrow>
     1 \<le> i \<and> i + 2 \<le> length data \<and> mz (data ! i) < mz (data ! (i - 1)) \<and> mz (data ! i) < mz (data ! (i + 1))"

subsection \<open>Final statistics\<close>

definition horizontalDeviation :: "Measurement \<Rightarrow> real" where
  "horizontalDeviation measurement =
     sqrt64 (plus64 (pow2_64 (mx measurement)) (pow2_64 (mz measurement)))"

text \<open>The callback of \<open>measurements.forEach\<close>, on \<open>(maxDeviation, totalDeviation)\<close>.\<close>

definition statsStep :: "real \<times> real \<Rightarrow> Measurement \<Rightarrow> real \<times> real" where
  "statsStep acc measurement =
     (max (fst acc) (horizontalDeviation measurement),
      plus64 (snd acc) (horizontalDeviation measurement))"

text \<open>
  A quotient of two doubles; \<open>None\<close> where the divisor is zero (JavaScript gives NaN or an
  infinity there).
\<close>

definition js_div :: "real \<Rightarrow> real \<Rightarrow> real option" where
  "js_div a b = (if b = 0 then None else Some (divide64 a b))"

text \<open>\<open>toFixed\<close> of a quotient: \<open>NaN\<close> for 0 / 0 and \<open>Infinity\<close> for a positive number by 0.\<close>

definition quotientToFixed :: "real \<Rightarrow> real \<Rightarrow> nat \<Rightarrow> string" where
  "quotientToFixed a b f =
     (case js_div a b of
        Some q \<Rightarrow> toFixed q f
      | None \<Rightarrow> if a = 0 then ''NaN'' else if a < 0 then ''-Infinity'' else ''Infinity'')"

text \<open>\<open>ms\<close> is the \<open>measurements\<close> of the closure in which the function was made.\<close>

definition calculateFinalStats :: "Measurement list \<Rightarrow> (nat \<Rightarrow> string) \<Rightarrow> State \<Rightarrow> State" where
  "calculateFinalStats ms clk s =
     (if length ms = 0 then s
      else
        let acc = foldl statsStep (0, 0) ms;
            maxDeviation' = fst acc;
            totalDeviation = snd acc;
            duration' = timestamp (ms ! (length ms - 1));
            stats = \<lparr>maxDeviation = toFixed maxDeviation' 2,
                     avgDeviation = quotientToFixed totalDeviation (real (length ms)) 2,
                     duration = toFixed duration' 2,
                     samples = length ms\<rparr>
        in addDebugMessage (clk 0)
             (''Session complete - '' @ toFixed duration' 1 @ ''s, max='' @ maxDeviation stats
                @ degree_sign @ '', avg='' @ avgDeviation stats @ degree_sign)
             (s\<lparr>finalStats := Some stats\<rparr>))"

text \<open>
  What \<open>handleDisconnect\<close> and \<open>stopTracking\<close> both do with the timeline of their closure:
  the statistics, and the squat phases unless \<open>detectSquatPhases\<close> returns \<open>null\<close>.
\<close>

definition finalizeTimeline :: "Measurement list \<Rightarrow> (nat \<Rightarrow> string) \<Rightarrow> State \<Rightarrow> State" where
  "finalizeTimeline ms clk s =
     (if length ms > 0 then
        let s = calculateFinalStats ms clk s
        in case detectSquatPhases ms of
             None \<Rightarrow> s
           | Some phases \<Rightarrow> s\<lparr>squatPhases := phases\<rparr>
      else s)"

definition handleDisconnect :: "Measurement list \<Rightarrow> (nat \<Rightarrow> string) \<Rightarrow> State \<Rightarrow> State" where
  "handleDisconnect ms clk s =
     (let s = addDebugMessage (clk 0) ''Device disconnected'' s;
          s = finalizeTimeline ms (\<lambda>k. clk (Suc k)) s
      in s\<lparr>mode := Idle, error := Some ''Device disconnected''\<rparr>)"

subsection \<open>Calibration\<close>

definition handleCalibrationData :: "(nat \<Rightarrow> string) \<Rightarrow> RawData \<Rightarrow> State \<Rightarrow> State" where
  "handleCalibrationData clk data s =
     (let elapsedTimeSeconds = times64 (real (measurementCount s)) SAMPLE_PERIOD;
          s = s\<lparr>measurementCount := measurementCount s + 1\<rparr>;
          newSamples = calibrationSamples s
            @ [\<lparr>mx = rx data, my = ry data, mz = rz data, timestamp = elapsedTimeSeconds\<rparr>];
          progress = times64 (divide64 (real (length newSamples)) (real REQUIRED_CALIBRATION_SAMPLES)) 100;
          s = s\<lparr>calibrationProgress := min progress 100\<rparr>;
          s = addDebugMessage (clk 0)
                (''Calibration sample '' @ digits (length newSamples) @ ''/''
                   @ digits REQUIRED_CALIBRATION_SAMPLES) s;
          s = (if length newSamples \<ge> REQUIRED_CALIBRATION_SAMPLES then
                 let avgX = divide64 (foldl (\<lambda>sum sample. plus64 sum (mx sample)) 0 newSamples)
                              (real (length newSamples));
                     avgY = divide64 (foldl (\<lambda>sum sample. plus64 sum (my sample)) 0 newSamples)
                              (real (length newSamples));
                     avgZ = divide64 (foldl (\<lambda>sum sample. plus64 sum (mz sample)) 0 newSamples)
                              (real (length newSamples))
                 in addDebugMessage (clk 1) ''Calibration complete! Starting tracking...''
                      (s\<lparr>calibration := \<lparr>cx = avgX, cy = avgY, cz = avgZ\<rparr>,
                         mode := Tracking,
                         measurements := [],
                         timelineObject := Suc (timelineObject s)\<rparr>)
               else s)
      in s\<lparr>calibrationSamples := newSamples\<rparr>)"

subsection \<open>Dispatch of a notification\<close>

text \<open>
  What the listener finds in \<open>event.target.value\<close>: nothing, text that \<open>JSON.parse\<close>
  rejects with a message, or a parsed sample.
\<close>

datatype Notification = NoValue | Unparsable string | Parsed RawData

text \<open>
  The dispatch reads \<open>modeRef.current\<close>, not \<open>mode\<close>; \<open>cal\<close> is the \<open>calibration\<close> of the
  listener's closure.
\<close>

definition handleMotionData :: "Calibration \<Rightarrow> (nat \<Rightarrow> string) \<Rightarrow> Notification \<Rightarrow> State \<Rightarrow> State" where
  "handleMotionData cal clk ev s =
     (case ev of
        NoValue \<Rightarrow> addDebugMessage (clk 0) ''Received empty dataView'' s
      | Unparsable msg \<Rightarrow>
          let errorMessage = ''Error parsing data: '' @ msg
          in (addDebugMessage (clk 0) errorMessage s)\<lparr>error := Some errorMessage\<rparr>
      | Parsed data \<Rightarrow>
          if modeRef s = Calibrating then handleCalibrationData clk data s
          else if modeRef s = Tracking then
            let calibratedX = minus64 (rx data) (cx cal);
                calibratedY = minus64 (ry data) (cy cal);
                calibratedZ = minus64 (rz data) (cz cal);
                s = s\<lparr>currentX := calibratedX, currentY := calibratedY, currentZ := calibratedZ\<rparr>;
                elapsedTimeSeconds = times64 (real (measurementCount s)) SAMPLE_PERIOD;
                s = s\<lparr>measurementCount := measurementCount s + 1\<rparr>;
                s = s\<lparr>measurements := measurements s
                      @ [\<lparr>mx = calibratedX, my = calibratedY, mz = calibratedZ,
                          timestamp = elapsedTimeSeconds\<rparr>],
                      timelineObject := Suc (timelineObject s)\<rparr>
            in addDebugMessage (clk 0)
                 (''Data ['' @ toFixed elapsedTimeSeconds 1 @ ''s]: x='' @ toFixed calibratedX 2
                    @ degree_sign @ '', y='' @ toFixed calibratedY 2 @ degree_sign
                    @ '', z='' @ toFixed calibratedZ 2 @ degree_sign) s
          else s)"

text \<open>
  A sequence of parsed samples through one listener. Each comes with a flag, whether the
  effect on \<open>modeRef\<close> has run before the next one is delivered, and with the clock of its
  delivery.
\<close>

type_synonym delivery = "bool \<times> (nat \<Rightarrow> string) \<times> RawData"

definition sample :: "delivery \<Rightarrow> RawData" where
  "sample e = snd (snd e)"

definition deliver :: "Calibration \<Rightarrow> State \<Rightarrow> delivery \<Rightarrow> State" where
  "deliver cal s e =
     (let s = handleMotionData cal (fst (snd e)) (Parsed (sample e)) s
      in if fst e then effectModeRef s else s)"

definition ingestAll :: "Calibration \<Rightarrow> delivery list \<Rightarrow> State \<Rightarrow> State" where
  "ingestAll cal evs s = foldl (deliver cal) s evs"

subsection \<open>Starting a session\<close>

text \<open>
  How the awaited Bluetooth calls of \<open>connectBLE\<close> end. Either all succeed: the chooser
  has returned the device object with the given number, and \<open>nowTime\<close> prints as the given
  ISO string. Or the call after \<open>k\<close> progress messages throws with a message: the chooser
  for 0, \<open>gatt.connect\<close> for 1, a later call, with the device connected, from 2 on.
\<close>

datatype Connection = Connected nat string | Failed nat nat string

definition connectProgress :: "string list" where
  "connectProgress =
     [''Device selected, connecting to GATT server...'',
      ''Connected to GATT server, getting service...'',
      ''Starting notifications...'']"

text \<open>\<open>connectBLE\<close> up to its first \<open>await\<close>, which the click runs at once.\<close>

definition connectStart :: "(nat \<Rightarrow> string) \<Rightarrow> State \<Rightarrow> State" where
  "connectStart clk s =
     (let s = s\<lparr>mode := Connecting, error := None, calibrationSamples := [],
                calibrationProgress := 0, measurementCount := 0\<rparr>
      in addDebugMessage (clk 0) ''Starting BLE connection...'' s)"

text \<open>The rest of \<open>connectBLE\<close>, run as the awaited calls return.\<close>

definition connectFinish :: "(nat \<Rightarrow> string) \<Rightarrow> Connection \<Rightarrow> State \<Rightarrow> State" where
  "connectFinish clk outcome s =
     (case outcome of
        Connected dev isoTime \<Rightarrow>
          (appendAll (zip (map clk [1..<5]) (connectProgress @ [''Starting calibration at: '' @ isoTime])) s)
            \<lparr>mode := Calibrating\<rparr>
      | Failed k dev msg \<Rightarrow>
          let errorMessage = ''Connection failed: '' @ msg;
              s = appendAll (zip (map clk [1..<Suc k]) (take k connectProgress)) s;
              s = s\<lparr>error := Some errorMessage\<rparr>;
              s = addDebugMessage (clk (Suc k)) errorMessage s
          in s\<lparr>mode := Idle\<rparr>)"

definition connectBLE :: "(nat \<Rightarrow> string) \<Rightarrow> Connection \<Rightarrow> State \<Rightarrow> State" where
  "connectBLE clk outcome s = connectFinish clk outcome (connectStart clk s)"

subsection \<open>The device and its listeners\<close>

text \<open>
  \<open>connectBLE\<close> registers two listeners, once each, after the notifications have started
  and before the mode becomes Calibrating: \<open>handleMotionData\<close> on the characteristic and
  \<open>handleDisconnect\<close> on the device object. What it registers are the functions of the
  render whose \<open>connectBLE\<close> the click has called: their \<open>calibration\<close> and \<open>measurements\<close> are
  the hook state of that render. Later renders build other functions, which nothing
  registers.

  The runtime is the hook state together with
  \<^item> the \<open>calibration\<close> held by the listener on the characteristic of the present
    connection (none without a connection: a disconnected characteristic is silent);
  \<^item> the device object in the hook state \<open>device\<close>, and for every device object whether
    its \<open>gatt.connected\<close> is true, and the \<open>handleDisconnect\<close> functions registered on it, in
    the order of registration, each given by the \<open>measurements\<close> that it holds and the number
    of that array. The chooser returns the same object for the same device, so that the
    functions add up over the sessions; \<open>addEventListener\<close> ignores a function that is
    registered already.
  The connect button is there in mode Idle only, when the page has no connection whose
  characteristic carries a listener.
\<close>

record Runtime =
  component :: State
  listenerCalibration :: "Calibration option"
  device :: "nat option"
  gattConnected :: "nat \<Rightarrow> bool"
  disconnectListeners :: "nat \<Rightarrow> (nat \<times> Measurement list) list"

definition addEventListener :: "'a \<Rightarrow> 'a list \<Rightarrow> 'a list" where
  "addEventListener f fs = (if f \<in> set fs then fs else fs @ [f])"

definition initialRuntime :: Runtime where
  "initialRuntime =
     \<lparr>component = initialState, listenerCalibration = None, device = None,
      gattConnected = (\<lambda>dev. False), disconnectListeners = (\<lambda>dev. [])\<rparr>"

text \<open>A click on the connect button, with the outcome of the awaited calls.\<close>

definition clickConnect :: "(nat \<Rightarrow> string) \<Rightarrow> Connection \<Rightarrow> Runtime \<Rightarrow> Runtime" where
  "clickConnect clk outcome r =
     (case outcome of
        Connected dev isoTime \<Rightarrow>
          \<lparr>component = connectBLE clk outcome (component r),
           listenerCalibration = Some (calibration (component r)),
           device = Some dev,
           gattConnected = (gattConnected r)(dev := True),
           disconnectListeners =
             (disconnectListeners r)
               (dev := addEventListener (timelineObject (component r), measurements (component r))
                         (disconnectListeners r dev))\<rparr>
      | Failed k dev msg \<Rightarrow>
          r\<lparr>component := connectBLE clk outcome (component r),
            gattConnected := (if 2 \<le> k then (gattConnected r)(dev := True) else gattConnected r)\<rparr>)"

text \<open>The effect on \<open>modeRef\<close>, run by React.\<close>

definition runEffect :: "Runtime \<Rightarrow> Runtime" where
  "runEffect r = r\<lparr>component := effectModeRef (component r)\<rparr>"

text \<open>The event \<open>characteristicvaluechanged\<close>, delivered to the registered listener.\<close>

definition notify :: "(nat \<Rightarrow> string) \<Rightarrow> Notification \<Rightarrow> Runtime \<Rightarrow> Runtime" where
  "notify clk ev r =
     (case listenerCalibration r of
        None \<Rightarrow> r
      | Some cal \<Rightarrow> r\<lparr>component := handleMotionData cal clk ev (component r)\<rparr>)"

definition notifyAll :: "delivery list \<Rightarrow> Runtime \<Rightarrow> Runtime" where
  "notifyAll evs r =
     foldl (\<lambda>r e. let r = notify (fst (snd e)) (Parsed (sample e)) r
                   in if fst e then runEffect r else r) r evs"

text \<open>
  The event \<open>gattserverdisconnected\<close> on a device object: its listeners run in the order
  of registration, the \<open>i\<close>-th with the clock readings from \<open>2 i\<close> on.
\<close>

fun fireListeners :: "nat \<Rightarrow> (nat \<Rightarrow> string) \<Rightarrow> Measurement list list \<Rightarrow> State \<Rightarrow> State" where
  "fireListeners i clk [] s = s"
| "fireListeners i clk (ms # rest) s =
     fireListeners (Suc i) clk rest (handleDisconnect ms (\<lambda>k. clk (2 * i + k)) s)"

definition serverDisconnected :: "(nat \<Rightarrow> string) \<Rightarrow> nat \<Rightarrow> Runtime \<Rightarrow> Runtime" where
  "serverDisconnected clk dev r =
     r\<lparr>component := fireListeners 0 clk (map snd (disconnectListeners r dev)) (component r),
       listenerCalibration := (if device r = Some dev then None else listenerCalibration r),
       gattConnected := (gattConnected r)(dev := False)\<rparr>"

subsection \<open>Stopping a session\<close>

text \<open>
  The first part of \<open>stopTracking\<close>: the message, and
  \<^verbatim>\<open>if (device?.gatt?.connected) await device.gatt.disconnect()\<close>, where \<open>disconnect()\<close>
  dispatches \<open>gattserverdisconnected\<close> before it returns.
\<close>

definition stopDisconnect :: "(nat \<Rightarrow> string) \<Rightarrow> Runtime \<Rightarrow> Runtime" where
  "stopDisconnect clk r =
     (let r = r\<lparr>component := addDebugMessage (clk 0) ''Stopping tracking...'' (component r)\<rparr>
      in case device r of
           None \<Rightarrow> r
         | Some dev \<Rightarrow>
             if gattConnected r dev then serverDisconnected (\<lambda>k. clk (Suc k)) dev r else r)"

text \<open>The number of clock readings that the first part may take.\<close>

definition stopClock :: "Runtime \<Rightarrow> nat" where
  "stopClock r =
     (case device r of
        None \<Rightarrow> 1
      | Some dev \<Rightarrow> if gattConnected r dev then 1 + 2 * length (disconnectListeners r dev) else 1)"

text \<open>
  A click on the stop button: after the first part, the function goes on with the
  \<open>measurements\<close> of its own closure, those of the render of the click.
\<close>

definition stopTracking :: "(nat \<Rightarrow> string) \<Rightarrow> Runtime \<Rightarrow> Runtime" where
  "stopTracking clk r =
     (let ms = measurements (component r);
          r' = stopDisconnect clk r;
          s = finalizeTimeline ms (\<lambda>k. clk (stopClock r + k)) (component r')
      in r'\<lparr>component := s\<lparr>mode := Idle\<rparr>\<rparr>)"

subsection \<open>Auxiliary notions of the proofs\<close>

text \<open>
  What the loop of \<open>detectSquatPhases\<close>, entered at \<open>i\<close> with \<open>acc\<close>, ends with when it
  replaces \<open>acc\<close>: the first candidate from \<open>i\<close> on whose magnitude is above that of \<open>acc\<close>
  and is not exceeded by a later one.
\<close>

definition kept :: "Measurement list \<Rightarrow> nat \<Rightarrow> real option \<times> real \<Rightarrow> nat \<Rightarrow> bool" where
  "kept data i acc j \<longleftrightarrow>
     i \<le> j \<and> spec_candidate data j \<and> \<bar>snd acc\<bar> < \<bar>mz (data ! j)\<bar>
     \<and> (\<forall>k. i \<le> k \<and> spec_candidate data k \<longrightarrow> \<bar>mz (data ! k)\<bar> \<le> \<bar>mz (data ! j)\<bar>)
     \<and> (\<forall>k. i \<le> k \<and> k < j \<and> spec_candidate data k \<longrightarrow> \<bar>mz (data ! k)\<bar> < \<bar>mz (data ! j)\<bar>)"

text \<open>
  The measurement that the tracking branch appends for the \<open>k\<close>-th sample of a sequence
  (\<open>p\<close> is \<open>k\<close> with the delivery) when the counter stood at \<open>n\<close> before the sequence.
\<close>

definition tracked :: "Calibration \<Rightarrow> nat \<Rightarrow> nat \<times> delivery \<Rightarrow> Measurement" where
  "tracked cal n p =
     \<lparr>mx = minus64 (rx (sample (snd p))) (cx cal),
      my = minus64 (ry (sample (snd p))) (cy cal),
      mz = minus64 (rz (sample (snd p))) (cz cal),
      timestamp = times64 (real (n + fst p)) SAMPLE_PERIOD\<rparr>"

text \<open>
  The timelines held by the listeners that a click on the stop button fires: those of the
  device in the hook state, if it is connected.
\<close>

definition firedTimelines :: "Runtime \<Rightarrow> Measurement list list" where
  "firedTimelines r =
     (case device r of
        None \<Rightarrow> []
      | Some dev \<Rightarrow> if gattConnected r dev then map snd (disconnectListeners r dev) else [])"

text \<open>The mean of a list of doubles as \<open>handleCalibrationData\<close> computes it.\<close>

definition mean64 :: "real list \<Rightarrow> real" where
  "mean64 xs = divide64 (foldl plus64 0 xs) (real (length xs))"

text \<open>The horizontal deviation in the real numbers, as the specification words it.\<close>

definition exactDeviation :: "Measurement \<Rightarrow> real" where
  "exactDeviation measurement = sqrt ((mx measurement)\<^sup>2 + (mz measurement)\<^sup>2)"

text \<open>
  No sum rounds when the numbers of a list are added to \<open>a\<close> one after the other; and the
  mean of a list is computed without any rounding.
\<close>

fun exactFrom :: "real \<Rightarrow> real list \<Rightarrow> bool" where
  "exactFrom a [] = True"
| "exactFrom a (x # xs) = (round64 (a + x) = a + x \<and> exactFrom (a + x) xs)"

definition exactMean :: "real list \<Rightarrow> bool" where
  "exactMean xs \<longleftrightarrow>
     exactFrom 0 xs \<and> round64 (sum_list xs / real (length xs)) = sum_list xs / real (length xs)"

subsection \<open>Concrete timelines\<close>

text \<open>
  The specification's example: \<open>z\<close> of 0, -1, -5, -2, 0 at the doubles \<open>0\<close>, \<open>0.05\<close>, \<open>0.1\<close>,
  \<open>0.15\<close> and \<open>0.2\<close>.
\<close>

definition example_timeline :: "Measurement list" where
  "example_timeline =
     [\<lparr>mx = 0, my = 0, mz = 0, timestamp = 0\<rparr>,
      \<lparr>mx = 0, my = 0, mz = - 1, timestamp = 3602879701896397 / 2 ^ 56\<rparr>,
      \<lparr>mx = 0, my = 0, mz = - 5, timestamp = 3602879701896397 / 2 ^ 55\<rparr>,
      \<lparr>mx = 0, my = 0, mz = - 2, timestamp = 5404319552844595 / 2 ^ 55\<rparr>,
      \<lparr>mx = 0, my = 0, mz = 0, timestamp = 3602879701896397 / 2 ^ 54\<rparr>]"

text \<open>A dip to exactly zero between two ones.\<close>

definition flat_dip :: "Measurement list" where
  "flat_dip =
     [\<lparr>mx = 0, my = 0, mz = 1, timestamp = 0\<rparr>,
      \<lparr>mx = 0, my = 0, mz = 0, timestamp = 3602879701896397 / 2 ^ 56\<rparr>,
      \<lparr>mx = 0, my = 0, mz = 1, timestamp = 3602879701896397 / 2 ^ 55\<rparr>]"

text \<open>A strictly rising timeline.\<close>

definition rising :: "Measurement list" where
  "rising =
     [\<lparr>mx = 0, my = 0, mz = 1, timestamp = 0\<rparr>,
      \<lparr>mx = 0, my = 0, mz = 2, timestamp = 3602879701896397 / 2 ^ 56\<rparr>,
      \<lparr>mx = 0, my = 0, mz = 3, timestamp = 3602879701896397 / 2 ^ 55\<rparr>]"

subsection \<open>Concrete sessions\<close>

definition clock0 :: "nat \<Rightarrow> string" where
  "clock0 k = ''12:00:00''"

text \<open>A delivery after which the effect has run, as when the deliveries are far apart.\<close>

definition settled :: "RawData \<Rightarrow> delivery" where
  "settled d = (True, clock0, d)"

text \<open>Ten samples with means 5.5, 11 and -5.5.\<close>

definition still_samples :: "delivery list" where
  "still_samples =
     map (\<lambda>v. settled \<lparr>rx = v, ry = 2 * v, rz = - v\<rparr>) [1, 2, 3, 4, 5, 6, 7, 8, 9, 10]"

text \<open>Ten samples at rest in \<open>{1, 2, 3}\<close>.\<close>

definition level_samples :: "delivery list" where
  "level_samples = replicate 10 (settled \<lparr>rx = 1, ry = 2, rz = 3\<rparr>)"

text \<open>Ten samples at rest in the double \<open>0.1\<close> on each axis.\<close>

definition tenth :: real where
  "tenth = 3602879701896397 / 2 ^ 55"

definition tenth_samples :: "delivery list" where
  "tenth_samples = replicate 10 (settled \<lparr>rx = tenth, ry = tenth, rz = tenth\<rparr>)"

text \<open>Five samples whose \<open>z\<close> dips to -5.\<close>

definition dip_samples :: "delivery list" where
  "dip_samples = map (\<lambda>v. settled \<lparr>rx = 0, ry = 0, rz = v\<rparr>) [0, - 1, - 5, - 2, 0]"

text \<open>
  A session started in state \<open>s\<close>: connect, the effect, the ten calibration samples
  \<open>still_samples\<close>, then the given samples, through the listener that the connection
  registers, which holds the \<open>calibration\<close> of \<open>s\<close>.
\<close>

definition afterConnect :: "State \<Rightarrow> State" where
  "afterConnect s = effectModeRef (connectBLE clock0 (Connected 0 ''2024-01-01T12:00:00.000Z'') s)"

definition session :: "delivery list \<Rightarrow> State \<Rightarrow> State" where
  "session evs s = ingestAll (calibration s) (still_samples @ evs) (afterConnect s)"

text \<open>The state after calibration at rest in \<open>{1, 2, 3}\<close>.\<close>

definition calibrated :: State where
  "calibrated = ingestAll (calibration initialState) level_samples (afterConnect initialState)"

text \<open>The same from the click on, and one sample \<open>{4, 5, 6}\<close> after it.\<close>

definition clicked :: "Runtime \<Rightarrow> Runtime" where
  "clicked r = runEffect (clickConnect clock0 (Connected 0 ''2024-01-01T12:00:00.000Z'') r)"

definition calibratedRuntime :: Runtime where
  "calibratedRuntime = notifyAll level_samples (clicked initialRuntime)"

definition firstTracked :: Runtime where
  "firstTracked = notify clock0 (Parsed \<lparr>rx = 4, ry = 5, rz = 6\<rparr>) calibratedRuntime"

text \<open>
  A first session over the dip, stopped; then a second one on the same device, with two
  samples only.
\<close>

definition first_session :: Runtime where
  "first_session =
     runEffect (stopTracking clock0 (notifyAll (still_samples @ dip_samples) (clicked initialRuntime)))"

definition second_session :: Runtime where
  "second_session = notifyAll (still_samples @ take 2 dip_samples) (clicked first_session)"

text \<open>
  A connection from the initial state: the effect has run while the chooser was open, and
  has not run again since \<open>connectBLE\<close> has set the mode to Calibrating.
\<close>

definition justConnected :: State where
  "justConnected =
     connectFinish clock0 (Connected 0 ''2024-01-01T12:00:00.000Z'')
       (effectModeRef (connectStart clock0 initialState))"

text \<open>
  The specification's example for the statistics: deviations \<open>{x: 3, z: 4}\<close> and
  \<open>{x: 0, z: 0}\<close>, here with some vertical deviation, at 0.5 s and at the double \<open>0.55\<close>.
\<close>

definition stats_example :: "Measurement list" where
  "stats_example =
     [\<lparr>mx = 3, my = 7, mz = 4, timestamp = 1 / 2\<rparr>,
      \<lparr>mx = 0, my = - 7, mz = 0, timestamp = 2476979795053773 / 2 ^ 52\<rparr>]"

text \<open>One deviation of 0.375 and four of zero: the mean is 0.075.\<close>

definition uneven_example :: "Measurement list" where
  "uneven_example =
     \<lparr>mx = 3 / 8, my = 0, mz = 0, timestamp = 0\<rparr>
       # replicate 4 \<lparr>mx = 0, my = 0, mz = 0, timestamp = 0\<rparr>"

text \<open>Statistics of an earlier session.\<close>

definition earlier_stats :: Stats where
  "earlier_stats =
     \<lparr>maxDeviation = ''5.00'', avgDeviation = ''2.50'', duration = ''0.55'', samples = 2\<rparr>"

section \<open>Properties\<close>

subsection \<open>The diagnostic log keeps the five most recent entries\<close>

lemma slice_from_end_drop: "slice_from_end k xs = drop (length xs - k) xs"
  by (simp add: slice_from_end_def nat_diff_distrib' max_def)

lemma slice_from_end_rev: "slice_from_end k xs = rev (take k (rev xs))"
  by (simp add: slice_from_end_drop rev_take)

lemma slice_from_end_idem:
  "slice_from_end k (slice_from_end k xs @ ys) = slice_from_end k (xs @ ys)"
  by (simp add: slice_from_end_rev min_def)

lemma appendAll_snoc:
  "appendAll (ms @ [m]) s = addDebugMessage (fst m) (snd m) (appendAll ms s)"
  by (simp add: appendAll_def case_prod_beta)

lemma debugMessages_addDebugMessage:
  "debugMessages (addDebugMessage now message s) =
     slice_from_end 5 (debugMessages s @ [now @ '' - '' @ message])"
  by (simp add: addDebugMessage_def debugUpdater_def)

lemma debugMessages_appendAll:
  "debugMessages (appendAll ms s) =
     (if ms = [] then debugMessages s else slice_from_end 5 (debugMessages s @ map entry ms))"
proof (induction ms rule: rev_induct)
  case Nil
  show ?case by (simp add: appendAll_def)
next
  case (snoc m ms)
  show ?case
  proof (cases "ms = []")
    case True
    then show ?thesis
      by (simp add: appendAll_def debugMessages_addDebugMessage entry_def case_prod_beta)
  next
    case False
    with snoc have prev: "debugMessages (appendAll ms s) = slice_from_end 5 (debugMessages s @ map entry ms)"
      by simp
    show ?thesis
      unfolding appendAll_snoc debugMessages_addDebugMessage prev slice_from_end_idem
      by (simp add: entry_def)
  qed
qed

text \<open>
  Claim C9. Appending any sequence of \<open>n\<close> messages to an empty log leaves exactly the last
  \<open>min n 5\<close> of them, in arrival order, each as the clock's time of day, \<open>'' - ''\<close> and the
  message; after eight messages the log holds the last five.
\<close>

theorem diagnostic_log_bounded:
  "debugMessages s = [] \<Longrightarrow>
     debugMessages (appendAll ms s) = drop (length ms - 5) (map entry ms)
     \<and> length (debugMessages (appendAll ms s)) = min (length ms) 5
     \<and> (length ms = 8 \<longrightarrow> debugMessages (appendAll ms s) = map entry (drop 3 ms))"
proof -
  assume empty: "debugMessages s = []"
  have "debugMessages (appendAll ms s) = slice_from_end 5 (map entry ms)"
    using empty by (cases "ms = []") (simp_all add: debugMessages_appendAll slice_from_end_drop)
  then have recent: "debugMessages (appendAll ms s) = drop (length ms - 5) (map entry ms)"
    by (simp add: slice_from_end_drop)
  then have bounded: "length (debugMessages (appendAll ms s)) = min (length ms) 5"
    by simp
  have "debugMessages (appendAll ms s) = map entry (drop 3 ms)" if "length ms = 8"
    using recent that by (simp add: drop_map)
  with recent bounded show ?thesis by blast
qed

theorem diagnostic_log_bounded_witness:
  "debugMessages initialState = []
   \<and> debugMessages (appendAll
        [(''10:00:01'', ''a''), (''10:00:02'', ''b''), (''10:00:03'', ''c''), (''10:00:04'', ''d''),
         (''10:00:05'', ''e''), (''10:00:06'', ''f''), (''10:00:07'', ''g''), (''10:00:08'', ''h'')]
        initialState)
      = [''10:00:04 - d'', ''10:00:05 - e'', ''10:00:06 - f'', ''10:00:07 - g'', ''10:00:08 - h'']"
proof -
  have e: "debugMessages initialState = []"
    by (simp add: initialState_def)
  show ?thesis
    using diagnostic_log_bounded [OF e,
      of "[(''10:00:01'', ''a''), (''10:00:02'', ''b''), (''10:00:03'', ''c''), (''10:00:04'', ''d''),
         (''10:00:05'', ''e''), (''10:00:06'', ''f''), (''10:00:07'', ''g''), (''10:00:08'', ''h'')]"]
    by (simp add: e entry_def)
qed

subsection \<open>Rounding to a double\<close>

lemma rne_of_int [simp]: "rne (of_int n) = n"
  by (simp add: rne_def)

lemma rne_nonneg: "0 \<le> q \<Longrightarrow> 0 \<le> rne q"
  by (simp add: rne_def Let_def)

lemma round64_nonneg: "0 \<le> x \<Longrightarrow> 0 \<le> round64 x"
  by (simp add: round64_def Let_def rne_nonneg)

lemma floor_log2_scaled:
  assumes "2 ^ 52 \<le> m" "m < 2 ^ 53"
  shows "52 \<le> log 2 m" "log 2 m < 53"
proof -
  from assms(1) have pos: "0 < m"
    by (rule less_le_trans [rotated]) simp
  have e: "log 2 ((2::real) ^ 52) = real 52" "log 2 ((2::real) ^ 53) = real 53"
    by (rule log_pow_cancel; simp)+
  have "log 2 (2 ^ 52) \<le> log 2 m"
    using assms(1) pos by (subst log_le_cancel_iff) simp_all
  then show "52 \<le> log 2 m" unfolding e by simp
  have "log 2 m < log 2 (2 ^ 53)"
    using assms(2) pos by (subst log_less_cancel_iff) simp_all
  then show "log 2 m < 53" unfolding e by simp
qed

lemma round64_small:
  assumes "2 ^ 52 \<le> \<bar>x\<bar> * 2 ^ k" "\<bar>x\<bar> * 2 ^ k < 2 ^ 53" "k \<le> 1074"
  shows "round64 x = of_int (rne (x * 2 ^ k)) / 2 ^ k"
proof -
  from assms(1) have nz: "x \<noteq> 0" by auto
  have "log 2 (\<bar>x\<bar> * 2 ^ k) = log 2 \<bar>x\<bar> + real k"
    using nz by (simp add: log_mult)
  with floor_log2_scaled [OF assms(1,2)]
  have "of_int (52 - int k) \<le> log 2 \<bar>x\<bar>" "log 2 \<bar>x\<bar> < of_int (52 - int k) + 1"
    by simp_all
  then have "\<lfloor>log 2 \<bar>x\<bar>\<rfloor> = 52 - int k"
    by (simp only: floor_eq_iff)
  moreover have "max (52 - int k) (- 1022) = 52 - int k"
    using assms(3) by simp
  moreover have "(2::real) powi (52 - int k - 52) = 1 / 2 ^ k"
    by (simp add: power_int_minus_divide)
  ultimately show ?thesis
    using nz by (simp add: round64_def Let_def)
qed

text \<open>A number of at most 53 bits above the subnormal spacing is a double.\<close>

lemma round64_dyadic:
  assumes "\<bar>m\<bar> < 2 ^ 53" "k \<le> 1074"
  shows "round64 (of_int m / 2 ^ k) = of_int m / 2 ^ k"
proof (cases "m = 0")
  case True
  then show ?thesis by (simp add: round64_def)
next
  case False
  define x :: real where "x = of_int m / 2 ^ k"
  define E where "E = max \<lfloor>log 2 \<bar>x\<bar>\<rfloor> (- 1022)"
  have pos: "0 < \<bar>x\<bar>" using False by (simp add: x_def)
  have "\<bar>x\<bar> * 2 ^ k = of_int \<bar>m\<bar>" by (simp add: x_def abs_mult)
  also have "\<dots> < 2 ^ 53" using assms(1) by (metis of_int_less_numeral_power_cancel_iff)
  finally have "\<bar>x\<bar> * 2 ^ k < 2 ^ 53" .
  then have "log 2 (\<bar>x\<bar> * 2 ^ k) < log 2 (2 ^ 53)"
    using pos by (subst log_less_cancel_iff) simp_all
  moreover have "log 2 ((2::real) ^ 53) = real 53"
    by (rule log_pow_cancel; simp)
  moreover have "log 2 (\<bar>x\<bar> * 2 ^ k) = log 2 \<bar>x\<bar> + real k"
    using pos by (simp add: log_mult)
  ultimately have "log 2 \<bar>x\<bar> < of_int (53 - int k)" by simp
  then have "\<lfloor>log 2 \<bar>x\<bar>\<rfloor> < 53 - int k" by (simp only: floor_less_iff)
  then have E: "E \<le> 52 - int k" "- 1022 \<le> E" using assms(2) by (simp_all add: E_def)
  define j where "j = nat (52 - int k - E)"
  have j: "int j = 52 - int k - E" using E by (simp add: j_def)
  have "(2::real) powi (E - 52) = 1 / (2 ^ j * 2 ^ k)"
  proof -
    have "E - 52 = - int (j + k)" using j by simp
    then have "(2::real) powi (E - 52) = 2 powi (- int (j + k))" by simp
    also have "\<dots> = 1 / 2 ^ (j + k)" by (simp only: power_int_minus power_int_of_nat inverse_eq_divide)
    finally show ?thesis by (simp add: power_add)
  qed
  then have u: "x / 2 powi (E - 52) = of_int (m * 2 ^ j)" "of_int (m * 2 ^ j) * 2 powi (E - 52) = x"
    by (simp_all add: x_def)
  have "round64 x = of_int (rne (x / 2 powi (E - 52))) * 2 powi (E - 52)"
    using pos by (simp add: round64_def Let_def E_def)
  also have "\<dots> = x" unfolding u(1) rne_of_int u(2) ..
  finally show ?thesis by (simp add: x_def)
qed

lemma round64_of_int: "\<bar>m\<bar> < 2 ^ 53 \<Longrightarrow> round64 (of_int m) = of_int m"
  using round64_dyadic [of m 0] by simp

lemma round64_numeral [simp]:
  "numeral w < (9007199254740992::int) \<Longrightarrow> round64 (numeral w) = numeral w"
  "numeral w < (9007199254740992::int) \<Longrightarrow> round64 (- numeral w) = - numeral w"
  using round64_of_int [of "numeral w"] round64_of_int [of "- numeral w"] by simp_all

lemma round64_0 [simp]: "round64 0 = 0"
  by (simp add: round64_def)

lemma round64_1 [simp]: "round64 1 = 1"
  using round64_of_int [of 1] by simp

lemma round64_m1 [simp]: "round64 (- 1) = - 1"
  using round64_of_int [of "- 1"] by simp

lemma sqrt64_square: "0 \<le> a \<Longrightarrow> sqrt64 (a * a) = round64 a"
  by (simp add: sqrt64_def)

text \<open>The literal \<open>0.05\<close> and its multiples by the counts 10 to 14.\<close>

lemma SAMPLE_PERIOD_value: "SAMPLE_PERIOD = 3602879701896397 / 2 ^ 56"
  unfolding SAMPLE_PERIOD_def
  by (subst round64_small [where k = 57]) (simp_all add: rne_def)

lemma stamp_values:
  "times64 10 SAMPLE_PERIOD = 1 / 2"
  "times64 11 SAMPLE_PERIOD = 2476979795053773 / 2 ^ 52"
  "times64 12 SAMPLE_PERIOD = 1351079888211149 / 2 ^ 51"
  "times64 13 SAMPLE_PERIOD = 5854679515581645 / 2 ^ 53"
  "times64 14 SAMPLE_PERIOD = 6305039478318695 / 2 ^ 53"
  unfolding times64_def SAMPLE_PERIOD_value
  by (subst round64_small [where k = 53], simp_all add: rne_def)+

text \<open>Ten times the double \<open>0.1\<close>, added up from zero, and the tenth of the sum.\<close>

lemma tenth_sums:
  "plus64 0 tenth = 3602879701896397 / 2 ^ 55"
  "plus64 (3602879701896397 / 2 ^ 55) tenth = 3602879701896397 / 2 ^ 54"
  "plus64 (3602879701896397 / 2 ^ 54) tenth = 1351079888211149 / 2 ^ 52"
  "plus64 (1351079888211149 / 2 ^ 52) tenth = 3602879701896397 / 2 ^ 53"
  "plus64 (3602879701896397 / 2 ^ 53) tenth = 1 / 2"
  unfolding plus64_def tenth_def
      apply (subst round64_small [where k = 56], simp_all add: rne_def)
     apply (subst round64_small [where k = 55], simp_all add: rne_def)
    apply (subst round64_small [where k = 54], simp_all add: rne_def)
   apply (subst round64_small [where k = 54], simp_all add: rne_def)
  apply (subst round64_small [where k = 53], simp_all add: rne_def)
  done

lemma tenth_sums':
  "plus64 (1 / 2) tenth = 5404319552844595 / 2 ^ 53"
  "plus64 (5404319552844595 / 2 ^ 53) tenth = 3152519739159347 / 2 ^ 52"
  "plus64 (3152519739159347 / 2 ^ 52) tenth = 7205759403792793 / 2 ^ 53"
  "plus64 (7205759403792793 / 2 ^ 53) tenth = 2026619832316723 / 2 ^ 51"
  "plus64 (2026619832316723 / 2 ^ 51) tenth = 9007199254740991 / 2 ^ 53"
  unfolding plus64_def tenth_def
  by (subst round64_small [where k = 53], simp_all add: rne_def)+

lemma tenth_mean: "divide64 (9007199254740991 / 2 ^ 53) 10 = 7205759403792793 / 2 ^ 56"
  unfolding divide64_def
  by (subst round64_small [where k = 56]) (simp_all add: rne_def)

lemma mean64_tenth: "mean64 (replicate 10 tenth) = 7205759403792793 / 2 ^ 56"
proof -
  have "replicate 10 tenth = [tenth, tenth, tenth, tenth, tenth, tenth, tenth, tenth, tenth, tenth]"
    by (simp add: eval_nat_numeral)
  then have "foldl plus64 0 (replicate 10 tenth) = 9007199254740991 / 2 ^ 53"
    by (simp only: foldl.simps tenth_sums tenth_sums')
  then show ?thesis
    unfolding mean64_def by (simp only: tenth_mean length_replicate of_nat_numeral)
qed

lemma quotient_values:
  "divide64 5 2 = 5 / 2"
  "divide64 (3 / 8) 5 = 5404319552844595 / 2 ^ 56"
  "divide64 55 10 = 11 / 2"
  "divide64 (- 55) 10 = - (11 / 2)"
  unfolding divide64_def
     apply (subst round64_small [where k = 51], simp_all add: rne_def)
    apply (subst round64_small [where k = 56], simp_all add: rne_def)
   apply (subst round64_small [where k = 50], simp_all add: rne_def)
  apply (subst round64_small [where k = 50], simp_all add: rne_def)
  done

lemma small_values:
  "round64 (3 / 8) = 3 / 8"
  "round64 (9 / 64) = 9 / 64"
  using round64_dyadic [of 3 3] round64_dyadic [of 9 6] by simp_all

subsection \<open>What each callback leaves unchanged\<close>

lemma addDebugMessage_fields [simp]:
  "mode (addDebugMessage now message s) = mode s"
  "modeRef (addDebugMessage now message s) = modeRef s"
  "calibration (addDebugMessage now message s) = calibration s"
  "calibrationSamples (addDebugMessage now message s) = calibrationSamples s"
  "measurements (addDebugMessage now message s) = measurements s"
  "timelineObject (addDebugMessage now message s) = timelineObject s"
  "finalStats (addDebugMessage now message s) = finalStats s"
  "error (addDebugMessage now message s) = error s"
  "squatPhases (addDebugMessage now message s) = squatPhases s"
  "measurementCount (addDebugMessage now message s) = measurementCount s"
  by (simp_all add: addDebugMessage_def)

lemma calculateFinalStats_fields [simp]:
  "mode (calculateFinalStats ms clk s) = mode s"
  "modeRef (calculateFinalStats ms clk s) = modeRef s"
  "calibration (calculateFinalStats ms clk s) = calibration s"
  "calibrationSamples (calculateFinalStats ms clk s) = calibrationSamples s"
  "measurements (calculateFinalStats ms clk s) = measurements s"
  "timelineObject (calculateFinalStats ms clk s) = timelineObject s"
  "error (calculateFinalStats ms clk s) = error s"
  "squatPhases (calculateFinalStats ms clk s) = squatPhases s"
  "measurementCount (calculateFinalStats ms clk s) = measurementCount s"
  by (simp_all add: calculateFinalStats_def Let_def)

lemma calculateFinalStats_Nil [simp]: "calculateFinalStats [] clk s = s"
  by (simp add: calculateFinalStats_def)

lemma finalizeTimeline_fields [simp]:
  "mode (finalizeTimeline ms clk s) = mode s"
  "modeRef (finalizeTimeline ms clk s) = modeRef s"
  "calibration (finalizeTimeline ms clk s) = calibration s"
  "calibrationSamples (finalizeTimeline ms clk s) = calibrationSamples s"
  "measurements (finalizeTimeline ms clk s) = measurements s"
  "timelineObject (finalizeTimeline ms clk s) = timelineObject s"
  "error (finalizeTimeline ms clk s) = error s"
  "measurementCount (finalizeTimeline ms clk s) = measurementCount s"
  by (simp_all add: finalizeTimeline_def Let_def split: option.split)

lemma finalizeTimeline_squatPhases:
  "squatPhases (finalizeTimeline ms clk s) =
     (case detectSquatPhases ms of None \<Rightarrow> squatPhases s | Some phases \<Rightarrow> phases)"
  by (simp add: finalizeTimeline_def Let_def detectSquatPhases_def split: option.split)

lemma finalizeTimeline_Nil [simp]: "finalizeTimeline [] clk s = s"
  by (simp add: finalizeTimeline_def)

lemma handleDisconnect_fields [simp]:
  "modeRef (handleDisconnect ms clk s) = modeRef s"
  "calibration (handleDisconnect ms clk s) = calibration s"
  "calibrationSamples (handleDisconnect ms clk s) = calibrationSamples s"
  "measurements (handleDisconnect ms clk s) = measurements s"
  "timelineObject (handleDisconnect ms clk s) = timelineObject s"
  "measurementCount (handleDisconnect ms clk s) = measurementCount s"
  "mode (handleDisconnect ms clk s) = Idle"
  "error (handleDisconnect ms clk s) = Some ''Device disconnected''"
  by (simp_all add: handleDisconnect_def Let_def)

lemma handleDisconnect_squatPhases:
  "squatPhases (handleDisconnect ms clk s) =
     (case detectSquatPhases ms of None \<Rightarrow> squatPhases s | Some phases \<Rightarrow> phases)"
  by (simp add: handleDisconnect_def Let_def finalizeTimeline_squatPhases split: option.split)

lemma effectModeRef_fields [simp]:
  "mode (effectModeRef s) = mode s"
  "calibration (effectModeRef s) = calibration s"
  "calibrationSamples (effectModeRef s) = calibrationSamples s"
  "measurements (effectModeRef s) = measurements s"
  "timelineObject (effectModeRef s) = timelineObject s"
  "finalStats (effectModeRef s) = finalStats s"
  "error (effectModeRef s) = error s"
  "squatPhases (effectModeRef s) = squatPhases s"
  "measurementCount (effectModeRef s) = measurementCount s"
  "modeRef (effectModeRef s) = mode s"
  by (simp_all add: effectModeRef_def)

subsection \<open>Squat phase detection\<close>

lemma squatStep_cases:
  "squatStep data i acc =
     (if mz (data ! i) < mz (data ! (i - 1)) \<and> mz (data ! i) < mz (data ! (i + 1))
         \<and> \<bar>snd acc\<bar> < \<bar>mz (data ! i)\<bar>
      then (Some (timestamp (data ! i)), mz (data ! i)) else acc)"
  by (simp add: squatStep_def Let_def)

lemma squatLoop_result:
  "1 \<le> i \<Longrightarrow>
     (squatLoop data i acc = acc
        \<and> (\<forall>j. i \<le> j \<and> spec_candidate data j \<longrightarrow> \<bar>mz (data ! j)\<bar> \<le> \<bar>snd acc\<bar>))
     \<or> (\<exists>j. kept data i acc j \<and> squatLoop data i acc = (Some (timestamp (data ! j)), mz (data ! j)))"
proof (induction data i acc rule: squatLoop.induct)
  case (1 data i acc)
  show ?case
  proof (cases "int i < int (length data) - 1")
    case False
    then have "squatLoop data i acc = acc"
      by (simp add: squatLoop.simps)
    moreover from False have "\<not> spec_candidate data j" if "i \<le> j" for j
      using that by (auto simp: spec_candidate_def)
    ultimately show ?thesis by blast
  next
    case True
    let ?acc = "squatStep data i acc"
    have loop: "squatLoop data i acc = squatLoop data (i + 1) ?acc"
      using True by (subst squatLoop.simps) simp
    have cand: "spec_candidate data i \<longleftrightarrow>
        mz (data ! i) < mz (data ! (i - 1)) \<and> mz (data ! i) < mz (data ! (i + 1))"
      using True "1.prems" by (auto simp: spec_candidate_def)
    have ih: "(squatLoop data (i + 1) ?acc = ?acc
        \<and> (\<forall>j. i + 1 \<le> j \<and> spec_candidate data j \<longrightarrow> \<bar>mz (data ! j)\<bar> \<le> \<bar>snd ?acc\<bar>))
     \<or> (\<exists>j. kept data (i + 1) ?acc j
            \<and> squatLoop data (i + 1) ?acc = (Some (timestamp (data ! j)), mz (data ! j)))"
      using "1.IH" [OF True] by simp
    have split: "i \<le> k \<longleftrightarrow> k = i \<or> i + 1 \<le> k" for k
      by arith
    show ?thesis
    proof (cases "spec_candidate data i \<and> \<bar>snd acc\<bar> < \<bar>mz (data ! i)\<bar>")
      case sel: True
      then have acc': "?acc = (Some (timestamp (data ! i)), mz (data ! i))"
        by (simp add: squatStep_cases cand)
      from ih show ?thesis
      proof (elim disjE conjE exE)
        assume "squatLoop data (i + 1) ?acc = ?acc"
          and "\<forall>j. i + 1 \<le> j \<and> spec_candidate data j \<longrightarrow> \<bar>mz (data ! j)\<bar> \<le> \<bar>snd ?acc\<bar>"
        then have "kept data i acc i" "squatLoop data i acc = (Some (timestamp (data ! i)), mz (data ! i))"
          using sel by (auto simp: kept_def acc' loop split)
        then show ?thesis by blast
      next
        fix j
        assume "kept data (i + 1) ?acc j"
          and "squatLoop data (i + 1) ?acc = (Some (timestamp (data ! j)), mz (data ! j))"
        then have "kept data i acc j" "squatLoop data i acc = (Some (timestamp (data ! j)), mz (data ! j))"
          using sel by (auto simp: kept_def acc' loop split)
        then show ?thesis by blast
      qed
    next
      case nsel: False
      then have acc': "?acc = acc"
        by (auto simp: squatStep_cases cand)
      from ih show ?thesis
      proof (elim disjE conjE exE)
        assume "squatLoop data (i + 1) ?acc = ?acc"
          and "\<forall>j. i + 1 \<le> j \<and> spec_candidate data j \<longrightarrow> \<bar>mz (data ! j)\<bar> \<le> \<bar>snd ?acc\<bar>"
        then have "squatLoop data i acc = acc"
          "\<forall>j. i \<le> j \<and> spec_candidate data j \<longrightarrow> \<bar>mz (data ! j)\<bar> \<le> \<bar>snd acc\<bar>"
          using nsel by (auto simp: acc' loop split)
        then show ?thesis by blast
      next
        fix j
        assume "kept data (i + 1) ?acc j"
          and "squatLoop data (i + 1) ?acc = (Some (timestamp (data ! j)), mz (data ! j))"
        then have "kept data i acc j" "squatLoop data i acc = (Some (timestamp (data ! j)), mz (data ! j))"
          using nsel by (auto simp: kept_def acc' loop split)
        then show ?thesis by blast
      qed
    qed
  qed
qed

lemma detectSquatPhases_long:
  "3 \<le> length data \<Longrightarrow>
     detectSquatPhases data =
       Some \<lparr>bottomPoint = fst (squatLoop data 1 (None, 0)), maxDepth = snd (squatLoop data 1 (None, 0))\<rparr>"
  by (simp add: detectSquatPhases_def Let_def)

lemma squatLoop_unfold:
  "squatLoop data i acc =
     (if i + 1 < length data then squatLoop data (Suc i) (squatStep data i acc) else acc)"
  by (subst squatLoop.simps) auto

lemma monotone_no_candidate:
  "sorted (map mz data) \<or> sorted (rev (map mz data)) \<Longrightarrow> \<not> spec_candidate data i"
proof
  assume m: "sorted (map mz data) \<or> sorted (rev (map mz data))" and c: "spec_candidate data i"
  from c have i: "1 \<le> i" "i + 1 < length data"
    and lt: "mz (data ! i) < mz (data ! (i - 1))" "mz (data ! i) < mz (data ! (i + 1))"
    by (auto simp: spec_candidate_def)
  from m show False
  proof
    assume "sorted (map mz data)"
    from sorted_nth_mono [OF this, of "i - 1" i] i lt show False by simp
  next
    assume "sorted (rev (map mz data))"
    from sorted_rev_nth_mono [OF this, of i "i + 1"] i lt show False by simp
  qed
qed

lemma interior_of_five: "1 \<le> j \<Longrightarrow> j + 2 \<le> (5::nat) \<Longrightarrow> j = 1 \<or> j = 2 \<or> j = 3"
  by arith

text \<open>
  Claim C4, as the code has it. On three or more measurements, let \<open>i\<close> be a candidate (an
  interior index whose \<open>z\<close> is strictly below both neighbours) with \<open>z\<close> other than zero,
  whose magnitude no candidate exceeds and no earlier candidate reaches. Then the result is
  the signed \<open>z\<close> of \<open>i\<close> as \<open>maxDepth\<close> and the timestamp of \<open>i\<close> as \<open>bottomPoint\<close>.
\<close>

theorem detectSquatPhases_deepest_candidate:
  "3 \<le> length data \<Longrightarrow> spec_candidate data i \<Longrightarrow> mz (data ! i) \<noteq> 0 \<Longrightarrow>
   (\<forall>j. spec_candidate data j \<longrightarrow> \<bar>mz (data ! j)\<bar> \<le> \<bar>mz (data ! i)\<bar>) \<Longrightarrow>
   (\<forall>j. j < i \<and> spec_candidate data j \<longrightarrow> \<bar>mz (data ! j)\<bar> < \<bar>mz (data ! i)\<bar>) \<Longrightarrow>
   detectSquatPhases data = Some \<lparr>bottomPoint = Some (timestamp (data ! i)), maxDepth = mz (data ! i)\<rparr>"
proof -
  assume len: "3 \<le> length data" and ci: "spec_candidate data i" and nz: "mz (data ! i) \<noteq> 0"
    and largest: "\<forall>j. spec_candidate data j \<longrightarrow> \<bar>mz (data ! j)\<bar> \<le> \<bar>mz (data ! i)\<bar>"
    and first: "\<forall>j. j < i \<and> spec_candidate data j \<longrightarrow> \<bar>mz (data ! j)\<bar> < \<bar>mz (data ! i)\<bar>"
  let ?acc = "(None :: real option, 0 :: real)"
  from ci have i1: "1 \<le> i"
    by (simp add: spec_candidate_def)
  have "\<not> (\<forall>j. 1 \<le> j \<and> spec_candidate data j \<longrightarrow> \<bar>mz (data ! j)\<bar> \<le> \<bar>snd ?acc\<bar>)"
  proof
    assume "\<forall>j. 1 \<le> j \<and> spec_candidate data j \<longrightarrow> \<bar>mz (data ! j)\<bar> \<le> \<bar>snd ?acc\<bar>"
    then have "\<bar>mz (data ! i)\<bar> \<le> \<bar>snd ?acc\<bar>"
      using i1 ci by blast
    with nz show False by simp
  qed
  with squatLoop_result [OF order_refl, of data ?acc]
  obtain j where k: "kept data 1 ?acc j"
    and r: "squatLoop data 1 ?acc = (Some (timestamp (data ! j)), mz (data ! j))"
    by blast
  from k have cj: "spec_candidate data j"
    and bound: "\<forall>k. 1 \<le> k \<and> spec_candidate data k \<longrightarrow> \<bar>mz (data ! k)\<bar> \<le> \<bar>mz (data ! j)\<bar>"
    and before: "\<forall>k. 1 \<le> k \<and> k < j \<and> spec_candidate data k \<longrightarrow> \<bar>mz (data ! k)\<bar> < \<bar>mz (data ! j)\<bar>"
    unfolding kept_def by blast+
  have "j = i"
  proof (rule ccontr)
    assume "j \<noteq> i"
    then consider "j < i" | "i < j" by arith
    then show False
    proof cases
      case 1
      with first cj have "\<bar>mz (data ! j)\<bar> < \<bar>mz (data ! i)\<bar>" by blast
      moreover from bound i1 ci have "\<bar>mz (data ! i)\<bar> \<le> \<bar>mz (data ! j)\<bar>" by blast
      ultimately show False by simp
    next
      case 2
      with before i1 ci have "\<bar>mz (data ! i)\<bar> < \<bar>mz (data ! j)\<bar>" by blast
      moreover from largest cj have "\<bar>mz (data ! j)\<bar> \<le> \<bar>mz (data ! i)\<bar>" by blast
      ultimately show False by simp
    qed
  qed
  with r len show ?thesis
    by (simp add: detectSquatPhases_long)
qed

text \<open>
  The instance of the specification: on \<open>z\<close> of 0, -1, -5, -2, 0 the only candidate is index 2,
  and the result is the bottom at the double \<open>0.1\<close> with depth -5.
\<close>

theorem detectSquatPhases_deepest_candidate_witness:
  "3 \<le> length example_timeline \<and> spec_candidate example_timeline 2
   \<and> mz (example_timeline ! 2) \<noteq> 0
   \<and> detectSquatPhases example_timeline = Some \<lparr>bottomPoint = Some (3602879701896397 / 2 ^ 55), maxDepth = - 5\<rparr>"
proof -
  have len: "3 \<le> length example_timeline"
    by (simp add: example_timeline_def)
  have c2: "spec_candidate example_timeline 2"
    by (simp add: example_timeline_def spec_candidate_def)
  have nz: "mz (example_timeline ! 2) \<noteq> 0"
    by (simp add: example_timeline_def)
  have only: "j = 2" if "spec_candidate example_timeline j" for j
  proof -
    from that have "j = 1 \<or> j = 2 \<or> j = 3"
      by (intro interior_of_five) (simp_all add: spec_candidate_def example_timeline_def)
    with that show ?thesis
      by (auto simp: spec_candidate_def example_timeline_def)
  qed
  have largest: "\<forall>j. spec_candidate example_timeline j
      \<longrightarrow> \<bar>mz (example_timeline ! j)\<bar> \<le> \<bar>mz (example_timeline ! 2)\<bar>"
    using only by auto
  have first: "\<forall>j. j < 2 \<and> spec_candidate example_timeline j
      \<longrightarrow> \<bar>mz (example_timeline ! j)\<bar> < \<bar>mz (example_timeline ! 2)\<bar>"
    using only by auto
  show ?thesis
    using detectSquatPhases_deepest_candidate [OF len c2 nz largest first] len c2 nz
    by (simp add: example_timeline_def)
qed

text \<open>
  Without the condition on zero the statement fails: index 1 of \<open>flat_dip\<close> is its only
  candidate, and the result has no bottom, since the running depth starts at 0 and the
  comparison of magnitudes is strict.
\<close>

theorem detectSquatPhases_zero_candidate_counterexample:
  "3 \<le> length flat_dip \<and> spec_candidate flat_dip 1
   \<and> detectSquatPhases flat_dip = Some \<lparr>bottomPoint = None, maxDepth = 0\<rparr>
   \<and> detectSquatPhases flat_dip
       \<noteq> Some \<lparr>bottomPoint = Some (timestamp (flat_dip ! 1)), maxDepth = mz (flat_dip ! 1)\<rparr>"
  by (simp add: flat_dip_def spec_candidate_def detectSquatPhases_def squatLoop_unfold squatStep_def)

text \<open>
  Claim C10. On three or more measurements the result has no bottom exactly when its depth
  is 0; a timeline with no candidate, such as a monotone one, gives no bottom and depth 0;
  and a bottom is always a candidate whose \<open>z\<close> is not zero.
\<close>

theorem detectSquatPhases_bottom_iff_depth:
  "3 \<le> length data \<Longrightarrow>
     (\<exists>r. detectSquatPhases data = Some r
        \<and> (bottomPoint r = None \<longleftrightarrow> maxDepth r = 0)
        \<and> ((\<forall>i. \<not> spec_candidate data i) \<longrightarrow> r = \<lparr>bottomPoint = None, maxDepth = 0\<rparr>)
        \<and> (sorted (map mz data) \<or> sorted (rev (map mz data))
              \<longrightarrow> r = \<lparr>bottomPoint = None, maxDepth = 0\<rparr>)
        \<and> (\<forall>t. bottomPoint r = Some t \<longrightarrow>
              (\<exists>i. spec_candidate data i \<and> mz (data ! i) \<noteq> 0
                 \<and> t = timestamp (data ! i) \<and> maxDepth r = mz (data ! i))))"
proof -
  assume len: "3 \<le> length data"
  let ?r = "squatLoop data 1 (None, 0)"
  have res: "detectSquatPhases data = Some \<lparr>bottomPoint = fst ?r, maxDepth = snd ?r\<rparr>"
    using len by (rule detectSquatPhases_long)
  from squatLoop_result [of 1 data "(None, 0)"]
  consider "?r = (None, 0)"
    | j where "kept data 1 (None, 0) j" "?r = (Some (timestamp (data ! j)), mz (data ! j))"
    by auto
  then show ?thesis
  proof cases
    case 1
    with res show ?thesis by simp
  next
    case 2
    then have c: "spec_candidate data j" and nz: "mz (data ! j) \<noteq> 0"
      by (auto simp: kept_def)
    from c have "\<not> (sorted (map mz data) \<or> sorted (rev (map mz data)))"
      using monotone_no_candidate by blast
    with 2 c nz res show ?thesis by auto
  qed
qed

theorem detectSquatPhases_bottom_iff_depth_witness:
  "3 \<le> length rising \<and> sorted (map mz rising)
   \<and> detectSquatPhases rising = Some \<lparr>bottomPoint = None, maxDepth = 0\<rparr>"
proof -
  have len: "3 \<le> length rising" and mono: "sorted (map mz rising)"
    by (simp_all add: rising_def)
  from detectSquatPhases_bottom_iff_depth [OF len] mono
  have "detectSquatPhases rising = Some \<lparr>bottomPoint = None, maxDepth = 0\<rparr>"
    by auto
  with len mono show ?thesis by simp
qed

subsection \<open>Runs of the listener\<close>

lemma handleCalibrationData_fields:
  "measurementCount (handleCalibrationData clk d s) = measurementCount s + 1"
  "calibrationSamples (handleCalibrationData clk d s) =
     calibrationSamples s
       @ [\<lparr>mx = rx d, my = ry d, mz = rz d,
           timestamp = times64 (real (measurementCount s)) SAMPLE_PERIOD\<rparr>]"
  "mode (handleCalibrationData clk d s) =
     (if length (calibrationSamples s) + 1 \<ge> 10 then Tracking else mode s)"
  "modeRef (handleCalibrationData clk d s) = modeRef s"
  "measurements (handleCalibrationData clk d s) =
     (if length (calibrationSamples s) + 1 \<ge> 10 then [] else measurements s)"
  "timelineObject (handleCalibrationData clk d s) =
     (if length (calibrationSamples s) + 1 \<ge> 10 then Suc (timelineObject s) else timelineObject s)"
  "calibration (handleCalibrationData clk d s) =
     (if length (calibrationSamples s) + 1 \<ge> 10
      then \<lparr>cx = mean64 (map mx (calibrationSamples s) @ [rx d]),
            cy = mean64 (map my (calibrationSamples s) @ [ry d]),
            cz = mean64 (map mz (calibrationSamples s) @ [rz d])\<rparr>
      else calibration s)"
  "squatPhases (handleCalibrationData clk d s) = squatPhases s"
  "finalStats (handleCalibrationData clk d s) = finalStats s"
  "error (handleCalibrationData clk d s) = error s"
  by (simp_all add: handleCalibrationData_def Let_def REQUIRED_CALIBRATION_SAMPLES_def
        foldl_map mean64_def)

lemma tracking_step_fields:
  assumes "modeRef s = Tracking"
  shows "mode (handleMotionData cal clk (Parsed d) s) = mode s"
    and "modeRef (handleMotionData cal clk (Parsed d) s) = Tracking"
    and "measurementCount (handleMotionData cal clk (Parsed d) s) = measurementCount s + 1"
    and "measurements (handleMotionData cal clk (Parsed d) s) =
           measurements s
             @ [\<lparr>mx = minus64 (rx d) (cx cal), my = minus64 (ry d) (cy cal),
                 mz = minus64 (rz d) (cz cal),
                 timestamp = times64 (real (measurementCount s)) SAMPLE_PERIOD\<rparr>]"
    and "timelineObject (handleMotionData cal clk (Parsed d) s) = Suc (timelineObject s)"
    and "calibration (handleMotionData cal clk (Parsed d) s) = calibration s"
    and "calibrationSamples (handleMotionData cal clk (Parsed d) s) = calibrationSamples s"
    and "squatPhases (handleMotionData cal clk (Parsed d) s) = squatPhases s"
    and "finalStats (handleMotionData cal clk (Parsed d) s) = finalStats s"
    and "error (handleMotionData cal clk (Parsed d) s) = error s"
  using assms by (simp_all add: handleMotionData_def Let_def)

lemma calibrating_step:
  "modeRef s = Calibrating \<Longrightarrow>
     handleMotionData cal clk (Parsed d) s = handleCalibrationData clk d s"
  by (simp add: handleMotionData_def)

text \<open>A sample that finds neither mode in the ref is dropped.\<close>

lemma dropped_step:
  "modeRef s \<noteq> Calibrating \<Longrightarrow> modeRef s \<noteq> Tracking \<Longrightarrow>
     handleMotionData cal clk (Parsed d) s = s"
  by (simp add: handleMotionData_def)

lemma ingestAll_Nil [simp]: "ingestAll cal [] s = s"
  by (simp add: ingestAll_def)

lemma ingestAll_snoc:
  "ingestAll cal (evs @ [e]) s = deliver cal (ingestAll cal evs s) e"
  by (simp add: ingestAll_def)

lemma ingestAll_append:
  "ingestAll cal (evs @ evs') s = ingestAll cal evs' (ingestAll cal evs s)"
  by (simp add: ingestAll_def)

lemma deliver_calibrating:
  "modeRef s = Calibrating \<Longrightarrow>
     deliver cal s e =
       (if fst e then effectModeRef (handleCalibrationData (fst (snd e)) (sample e) s)
        else handleCalibrationData (fst (snd e)) (sample e) s)"
  by (simp add: deliver_def calibrating_step)

text \<open>
  Fewer than ten samples into an empty buffer: still calibrating, whenever the effect
  runs.
\<close>

lemma calibrating_run:
  "mode s = Calibrating \<Longrightarrow> modeRef s = Calibrating \<Longrightarrow> calibrationSamples s = [] \<Longrightarrow>
   length evs < 10 \<Longrightarrow>
     mode (ingestAll cal evs s) = Calibrating
     \<and> modeRef (ingestAll cal evs s) = Calibrating
     \<and> length (calibrationSamples (ingestAll cal evs s)) = length evs
     \<and> map mx (calibrationSamples (ingestAll cal evs s)) = map (rx \<circ> sample) evs
     \<and> map my (calibrationSamples (ingestAll cal evs s)) = map (ry \<circ> sample) evs
     \<and> map mz (calibrationSamples (ingestAll cal evs s)) = map (rz \<circ> sample) evs
     \<and> measurementCount (ingestAll cal evs s) = measurementCount s + length evs
     \<and> measurements (ingestAll cal evs s) = measurements s
     \<and> timelineObject (ingestAll cal evs s) = timelineObject s
     \<and> calibration (ingestAll cal evs s) = calibration s
     \<and> squatPhases (ingestAll cal evs s) = squatPhases s
     \<and> finalStats (ingestAll cal evs s) = finalStats s
     \<and> error (ingestAll cal evs s) = error s"
proof (induction evs rule: rev_induct)
  case Nil
  then show ?case by simp
next
  case (snoc e evs)
  then have ih: "mode (ingestAll cal evs s) = Calibrating"
     "modeRef (ingestAll cal evs s) = Calibrating"
     "length (calibrationSamples (ingestAll cal evs s)) = length evs"
     "map mx (calibrationSamples (ingestAll cal evs s)) = map (rx \<circ> sample) evs"
     "map my (calibrationSamples (ingestAll cal evs s)) = map (ry \<circ> sample) evs"
     "map mz (calibrationSamples (ingestAll cal evs s)) = map (rz \<circ> sample) evs"
     "measurementCount (ingestAll cal evs s) = measurementCount s + length evs"
     "measurements (ingestAll cal evs s) = measurements s"
     "timelineObject (ingestAll cal evs s) = timelineObject s"
     "calibration (ingestAll cal evs s) = calibration s"
     "squatPhases (ingestAll cal evs s) = squatPhases s"
     "finalStats (ingestAll cal evs s) = finalStats s"
     "error (ingestAll cal evs s) = error s"
    by simp_all
  from snoc.prems have short: "length evs + 1 < 10" by simp
  show ?case
    unfolding ingestAll_snoc deliver_calibrating [OF ih(2)]
    using short by (simp add: handleCalibrationData_fields ih)
qed

text \<open>
  The tenth sample: the baseline is set, the mode is Tracking and the timeline is a new,
  empty one. The ref follows if the effect runs.
\<close>

lemma calibration_complete:
  assumes "mode s = Calibrating" "modeRef s = Calibrating" "calibrationSamples s = []"
    and "length evs = 10"
  shows "mode (ingestAll cal evs s) = Tracking"
    and "modeRef (ingestAll cal evs s) = (if fst (last evs) then Tracking else Calibrating)"
    and "length (calibrationSamples (ingestAll cal evs s)) = 10"
    and "measurements (ingestAll cal evs s) = []"
    and "timelineObject (ingestAll cal evs s) = Suc (timelineObject s)"
    and "measurementCount (ingestAll cal evs s) = measurementCount s + 10"
    and "calibration (ingestAll cal evs s) =
           \<lparr>cx = mean64 (map (rx \<circ> sample) evs),
            cy = mean64 (map (ry \<circ> sample) evs),
            cz = mean64 (map (rz \<circ> sample) evs)\<rparr>"
    and "squatPhases (ingestAll cal evs s) = squatPhases s"
    and "finalStats (ingestAll cal evs s) = finalStats s"
    and "error (ingestAll cal evs s) = error s"
proof -
  from assms(4) obtain evs' e where evs: "evs = evs' @ [e]" and len: "length evs' = 9"
    by (cases evs rule: rev_cases) auto
  from len have "length evs' < 10" by simp
  note run = calibrating_run [OF assms(1-3) this, of cal]
  let ?s = "ingestAll cal evs' s"
  from run have ref: "modeRef ?s = Calibrating" by simp
  have step: "ingestAll cal evs s =
      (if fst e then effectModeRef (handleCalibrationData (fst (snd e)) (sample e) ?s)
       else handleCalibrationData (fst (snd e)) (sample e) ?s)"
    unfolding evs ingestAll_snoc by (rule deliver_calibrating [OF ref])
  show "mode (ingestAll cal evs s) = Tracking"
    and "modeRef (ingestAll cal evs s) = (if fst (last evs) then Tracking else Calibrating)"
    and "length (calibrationSamples (ingestAll cal evs s)) = 10"
    and "measurements (ingestAll cal evs s) = []"
    and "timelineObject (ingestAll cal evs s) = Suc (timelineObject s)"
    and "measurementCount (ingestAll cal evs s) = measurementCount s + 10"
    and "squatPhases (ingestAll cal evs s) = squatPhases s"
    and "finalStats (ingestAll cal evs s) = finalStats s"
    and "error (ingestAll cal evs s) = error s"
    unfolding step using run len by (simp_all add: handleCalibrationData_fields evs)
  show "calibration (ingestAll cal evs s) =
           \<lparr>cx = mean64 (map (rx \<circ> sample) evs),
            cy = mean64 (map (ry \<circ> sample) evs),
            cz = mean64 (map (rz \<circ> sample) evs)\<rparr>"
    unfolding step using run len by (simp add: handleCalibrationData_fields evs)
qed

lemma deliver_tracking:
  assumes "mode s = Tracking" "modeRef s = Tracking"
  shows "mode (deliver cal s e) = Tracking"
    and "modeRef (deliver cal s e) = Tracking"
    and "measurementCount (deliver cal s e) = measurementCount s + 1"
    and "measurements (deliver cal s e) =
           measurements s
             @ [\<lparr>mx = minus64 (rx (sample e)) (cx cal), my = minus64 (ry (sample e)) (cy cal),
                 mz = minus64 (rz (sample e)) (cz cal),
                 timestamp = times64 (real (measurementCount s)) SAMPLE_PERIOD\<rparr>]"
    and "timelineObject (deliver cal s e) = Suc (timelineObject s)"
    and "calibration (deliver cal s e) = calibration s"
    and "calibrationSamples (deliver cal s e) = calibrationSamples s"
    and "squatPhases (deliver cal s e) = squatPhases s"
    and "finalStats (deliver cal s e) = finalStats s"
    and "error (deliver cal s e) = error s"
  using assms by (simp_all add: deliver_def Let_def tracking_step_fields)

lemma tracking_run:
  "mode s = Tracking \<Longrightarrow> modeRef s = Tracking \<Longrightarrow>
     mode (ingestAll cal evs s) = Tracking
     \<and> modeRef (ingestAll cal evs s) = Tracking
     \<and> measurements (ingestAll cal evs s)
         = measurements s @ map (tracked cal (measurementCount s)) (enumerate 0 evs)
     \<and> timelineObject (ingestAll cal evs s) = timelineObject s + length evs
     \<and> measurementCount (ingestAll cal evs s) = measurementCount s + length evs
     \<and> calibration (ingestAll cal evs s) = calibration s
     \<and> calibrationSamples (ingestAll cal evs s) = calibrationSamples s
     \<and> squatPhases (ingestAll cal evs s) = squatPhases s
     \<and> finalStats (ingestAll cal evs s) = finalStats s
     \<and> error (ingestAll cal evs s) = error s"
proof (induction evs rule: rev_induct)
  case Nil
  then show ?case by simp
next
  case (snoc e evs)
  then have ih: "mode (ingestAll cal evs s) = Tracking"
    "modeRef (ingestAll cal evs s) = Tracking"
    "measurements (ingestAll cal evs s)
       = measurements s @ map (tracked cal (measurementCount s)) (enumerate 0 evs)"
    "timelineObject (ingestAll cal evs s) = timelineObject s + length evs"
    "measurementCount (ingestAll cal evs s) = measurementCount s + length evs"
    "calibration (ingestAll cal evs s) = calibration s"
    "calibrationSamples (ingestAll cal evs s) = calibrationSamples s"
    "squatPhases (ingestAll cal evs s) = squatPhases s"
    "finalStats (ingestAll cal evs s) = finalStats s"
    "error (ingestAll cal evs s) = error s"
    by simp_all
  show ?case
    unfolding ingestAll_snoc
    by (simp add: deliver_tracking [OF ih(1,2)] ih enumerate_append_eq tracked_def)
qed

text \<open>
  Once the mode is Tracking with ten calibration samples, it stays so, whatever the ref
  holds.
\<close>

lemma tracking_stays:
  "mode s = Tracking \<Longrightarrow> 10 \<le> length (calibrationSamples s) \<Longrightarrow>
     mode (ingestAll cal evs s) = Tracking
     \<and> 10 \<le> length (calibrationSamples (ingestAll cal evs s))"
proof (induction evs rule: rev_induct)
  case Nil
  then show ?case by simp
next
  case (snoc e evs)
  let ?s = "ingestAll cal evs s"
  from snoc have ih: "mode ?s = Tracking" "10 \<le> length (calibrationSamples ?s)"
    by simp_all
  have "mode (handleMotionData cal clk (Parsed d) ?s) = Tracking
      \<and> 10 \<le> length (calibrationSamples (handleMotionData cal clk (Parsed d) ?s))" for clk d
  proof (cases "modeRef ?s = Calibrating")
    case True
    then show ?thesis
      using ih by (simp add: calibrating_step handleCalibrationData_fields)
  next
    case False
    show ?thesis
    proof (cases "modeRef ?s = Tracking")
      case True
      then show ?thesis using ih by (simp add: tracking_step_fields)
    next
      case False
      with \<open>modeRef ?s \<noteq> Calibrating\<close> show ?thesis
        using ih by (simp add: dropped_step)
    qed
  qed
  then show ?case
    unfolding ingestAll_snoc by (simp add: deliver_def Let_def)
qed

lemma appendAll_fields [simp]:
  "mode (appendAll ms s) = mode s"
  "modeRef (appendAll ms s) = modeRef s"
  "calibration (appendAll ms s) = calibration s"
  "calibrationSamples (appendAll ms s) = calibrationSamples s"
  "measurements (appendAll ms s) = measurements s"
  "timelineObject (appendAll ms s) = timelineObject s"
  "finalStats (appendAll ms s) = finalStats s"
  "error (appendAll ms s) = error s"
  "squatPhases (appendAll ms s) = squatPhases s"
  "measurementCount (appendAll ms s) = measurementCount s"
  by (induction ms rule: rev_induct) (simp_all add: appendAll_snoc, simp_all add: appendAll_def)

lemma connectBLE_Connected_fields:
  "mode (connectBLE clk (Connected dev isoTime) s) = Calibrating"
  "modeRef (connectBLE clk (Connected dev isoTime) s) = modeRef s"
  "calibrationSamples (connectBLE clk (Connected dev isoTime) s) = []"
  "measurementCount (connectBLE clk (Connected dev isoTime) s) = 0"
  "measurements (connectBLE clk (Connected dev isoTime) s) = measurements s"
  "timelineObject (connectBLE clk (Connected dev isoTime) s) = timelineObject s"
  "calibration (connectBLE clk (Connected dev isoTime) s) = calibration s"
  "squatPhases (connectBLE clk (Connected dev isoTime) s) = squatPhases s"
  "finalStats (connectBLE clk (Connected dev isoTime) s) = finalStats s"
  "error (connectBLE clk (Connected dev isoTime) s) = None"
  by (simp_all add: connectBLE_def connectStart_def connectFinish_def Let_def)

text \<open>Notifications reach the hook state through the registered listener.\<close>

lemma notifyAll_listener:
  "listenerCalibration r = Some cal \<Longrightarrow>
     component (notifyAll evs r) = ingestAll cal evs (component r)
     \<and> listenerCalibration (notifyAll evs r) = Some cal
     \<and> device (notifyAll evs r) = device r
     \<and> gattConnected (notifyAll evs r) = gattConnected r
     \<and> disconnectListeners (notifyAll evs r) = disconnectListeners r"
proof (induction evs rule: rev_induct)
  case Nil
  then show ?case by (simp add: notifyAll_def)
next
  case (snoc e evs)
  then have ih: "component (notifyAll evs r) = ingestAll cal evs (component r)"
    "listenerCalibration (notifyAll evs r) = Some cal"
    "device (notifyAll evs r) = device r"
    "gattConnected (notifyAll evs r) = gattConnected r"
    "disconnectListeners (notifyAll evs r) = disconnectListeners r"
    by simp_all
  have "notifyAll (evs @ [e]) r =
      (let r' = notify (fst (snd e)) (Parsed (sample e)) (notifyAll evs r)
       in if fst e then runEffect r' else r')"
    by (simp add: notifyAll_def)
  then show ?case
    by (simp add: notify_def runEffect_def ih ingestAll_snoc deliver_def Let_def)
qed

subsection \<open>The device's listeners\<close>

lemma fireListeners_fields [simp]:
  "modeRef (fireListeners i clk mss s) = modeRef s"
  "calibration (fireListeners i clk mss s) = calibration s"
  "calibrationSamples (fireListeners i clk mss s) = calibrationSamples s"
  "measurements (fireListeners i clk mss s) = measurements s"
  "timelineObject (fireListeners i clk mss s) = timelineObject s"
  "measurementCount (fireListeners i clk mss s) = measurementCount s"
  by (induction mss arbitrary: i s) simp_all

text \<open>Listeners whose timelines give no squat phases leave the stored ones.\<close>

lemma fireListeners_short:
  "\<forall>ms \<in> set mss. detectSquatPhases ms = None \<Longrightarrow>
     squatPhases (fireListeners i clk mss s) = squatPhases s"
  by (induction mss arbitrary: i s) (simp_all add: handleDisconnect_squatPhases)

text \<open>After a listener whose timeline gives squat phases, these are the stored ones.\<close>

lemma fireListeners_last:
  "detectSquatPhases ms = Some phases \<Longrightarrow>
     squatPhases (fireListeners i clk (mss @ [ms]) s) = phases"
  by (induction mss arbitrary: i s) (simp_all add: handleDisconnect_squatPhases)

lemma fireListeners_error:
  "error (fireListeners i clk mss s) = (if mss = [] then error s else Some ''Device disconnected'')"
  by (induction mss arbitrary: i s) simp_all

lemma stopDisconnect_fields:
  "measurements (component (stopDisconnect clk r)) = measurements (component r)"
  "calibration (component (stopDisconnect clk r)) = calibration (component r)"
  "timelineObject (component (stopDisconnect clk r)) = timelineObject (component r)"
  "modeRef (component (stopDisconnect clk r)) = modeRef (component r)"
  "device (stopDisconnect clk r) = device r"
  "disconnectListeners (stopDisconnect clk r) = disconnectListeners r"
  by (simp_all add: stopDisconnect_def serverDisconnected_def Let_def split: option.split)

text \<open>A stop without a connected device fires no listener.\<close>

lemma stopDisconnect_plain:
  "device r = None \<or> (\<exists>dev. device r = Some dev \<and> \<not> gattConnected r dev) \<Longrightarrow>
     stopDisconnect clk r =
       r\<lparr>component := addDebugMessage (clk 0) ''Stopping tracking...'' (component r)\<rparr>"
  by (auto simp add: stopDisconnect_def Let_def)

lemma stopDisconnect_connected:
  "device r = Some dev \<Longrightarrow> gattConnected r dev \<Longrightarrow>
     component (stopDisconnect clk r) =
       fireListeners 0 (\<lambda>k. clk (Suc k)) (map snd (disconnectListeners r dev))
         (addDebugMessage (clk 0) ''Stopping tracking...'' (component r))
     \<and> gattConnected (stopDisconnect clk r) = (gattConnected r)(dev := False)
     \<and> listenerCalibration (stopDisconnect clk r) = None"
  by (simp add: stopDisconnect_def serverDisconnected_def Let_def)

lemma stopTracking_fields:
  "mode (component (stopTracking clk r)) = Idle"
  "measurements (component (stopTracking clk r)) = measurements (component r)"
  "calibration (component (stopTracking clk r)) = calibration (component r)"
  "timelineObject (component (stopTracking clk r)) = timelineObject (component r)"
  "modeRef (component (stopTracking clk r)) = modeRef (component r)"
  "error (component (stopTracking clk r)) = error (component (stopDisconnect clk r))"
  "squatPhases (component (stopTracking clk r)) =
     (case detectSquatPhases (measurements (component r)) of
        None \<Rightarrow> squatPhases (component (stopDisconnect clk r))
      | Some phases \<Rightarrow> phases)"
  "device (stopTracking clk r) = device r"
  "disconnectListeners (stopTracking clk r) = disconnectListeners r"
  "gattConnected (stopTracking clk r) = gattConnected (stopDisconnect clk r)"
  "listenerCalibration (stopTracking clk r) = listenerCalibration (stopDisconnect clk r)"
  by (simp_all add: stopTracking_def Let_def stopDisconnect_fields finalizeTimeline_squatPhases)

subsection \<open>The concrete sessions\<close>

lemma still_samples_length: "length still_samples = 10"
  by (simp add: still_samples_def)

lemma dip_samples_length: "length dip_samples = 5"
  by (simp add: dip_samples_def)

lemma still_samples_settled: "fst (last still_samples)"
  by (simp add: still_samples_def settled_def)

lemma still_samples_means:
  "mean64 (map (rx \<circ> sample) still_samples) = 11 / 2"
  "mean64 (map (ry \<circ> sample) still_samples) = 11"
  "mean64 (map (rz \<circ> sample) still_samples) = - (11 / 2)"
proof -
  have "foldl plus64 0 (map (rx \<circ> sample) still_samples) = 55"
    "foldl plus64 0 (map (ry \<circ> sample) still_samples) = 110"
    "foldl plus64 0 (map (rz \<circ> sample) still_samples) = - 55"
    by (simp_all add: still_samples_def settled_def sample_def plus64_def)
  then show "mean64 (map (rx \<circ> sample) still_samples) = 11 / 2"
    "mean64 (map (ry \<circ> sample) still_samples) = 11"
    "mean64 (map (rz \<circ> sample) still_samples) = - (11 / 2)"
    unfolding mean64_def length_map still_samples_length
    by (simp_all add: quotient_values) (simp add: divide64_def)
qed

lemma afterConnect_fields:
  "mode (afterConnect s) = Calibrating"
  "modeRef (afterConnect s) = Calibrating"
  "calibrationSamples (afterConnect s) = []"
  "measurementCount (afterConnect s) = 0"
  "measurements (afterConnect s) = measurements s"
  "timelineObject (afterConnect s) = timelineObject s"
  "calibration (afterConnect s) = calibration s"
  "squatPhases (afterConnect s) = squatPhases s"
  "finalStats (afterConnect s) = finalStats s"
  "error (afterConnect s) = None"
  by (simp_all add: afterConnect_def connectBLE_Connected_fields)

lemma session_fields:
  "mode (session evs s) = Tracking"
  "modeRef (session evs s) = Tracking"
  "measurements (session evs s) = map (tracked (calibration s) 10) (enumerate 0 evs)"
  "measurementCount (session evs s) = 10 + length evs"
  "timelineObject (session evs s) = Suc (timelineObject s) + length evs"
  "calibration (session evs s) = \<lparr>cx = 11 / 2, cy = 11, cz = - (11 / 2)\<rparr>"
  "squatPhases (session evs s) = squatPhases s"
  "finalStats (session evs s) = finalStats s"
  "error (session evs s) = None"
proof -
  let ?c = "afterConnect s"
  let ?k = "ingestAll (calibration s) still_samples ?c"
  have c: "mode ?c = Calibrating" "modeRef ?c = Calibrating" "calibrationSamples ?c = []"
    by (simp_all add: afterConnect_fields)
  note k = calibration_complete [OF c still_samples_length, of "calibration s"]
  have ref: "modeRef ?k = Tracking"
    unfolding k(2) using still_samples_settled by simp
  note t = tracking_run [OF k(1) ref, of "calibration s" evs]
  have s: "session evs s = ingestAll (calibration s) evs ?k"
    by (simp add: session_def ingestAll_append)
  show "mode (session evs s) = Tracking"
    and "modeRef (session evs s) = Tracking"
    and "measurements (session evs s) = map (tracked (calibration s) 10) (enumerate 0 evs)"
    and "measurementCount (session evs s) = 10 + length evs"
    and "timelineObject (session evs s) = Suc (timelineObject s) + length evs"
    and "squatPhases (session evs s) = squatPhases s"
    and "finalStats (session evs s) = finalStats s"
    and "error (session evs s) = None"
    unfolding s using t k(1,3-6,8-10) by (simp_all add: afterConnect_fields)
  have "calibration (session evs s) = calibration ?k"
    unfolding s using t by simp
  also have "\<dots> = \<lparr>cx = 11 / 2, cy = 11, cz = - (11 / 2)\<rparr>"
    unfolding k(7) still_samples_means ..
  finally show "calibration (session evs s) = \<lparr>cx = 11 / 2, cy = 11, cz = - (11 / 2)\<rparr>" .
qed

text \<open>The sessions above are what the runtime does after a click on the connect button.\<close>

lemma clicked_fields:
  "component (clicked r) = afterConnect (component r)"
  "listenerCalibration (clicked r) = Some (calibration (component r))"
  "device (clicked r) = Some 0"
  "gattConnected (clicked r) = (gattConnected r)(0 := True)"
  "disconnectListeners (clicked r) =
     (disconnectListeners r)
       (0 := addEventListener (timelineObject (component r), measurements (component r))
               (disconnectListeners r 0))"
  by (simp_all add: clicked_def clickConnect_def runEffect_def afterConnect_def)

lemma runtime_session:
  "component (notifyAll (still_samples @ evs) (clicked r)) = session evs (component r)"
  "listenerCalibration (notifyAll (still_samples @ evs) (clicked r)) = Some (calibration (component r))"
  "device (notifyAll (still_samples @ evs) (clicked r)) = Some 0"
  "gattConnected (notifyAll (still_samples @ evs) (clicked r)) 0"
  "disconnectListeners (notifyAll (still_samples @ evs) (clicked r)) 0 =
     addEventListener (timelineObject (component r), measurements (component r))
       (disconnectListeners r 0)"
  using notifyAll_listener [of "clicked r" "calibration (component r)" "still_samples @ evs"]
  by (simp_all add: session_def clicked_fields)

lemma first_timeline:
  "measurements (session dip_samples initialState) =
     [\<lparr>mx = 0, my = 0, mz = 0, timestamp = 1 / 2\<rparr>,
      \<lparr>mx = 0, my = 0, mz = - 1, timestamp = 2476979795053773 / 2 ^ 52\<rparr>,
      \<lparr>mx = 0, my = 0, mz = - 5, timestamp = 1351079888211149 / 2 ^ 51\<rparr>,
      \<lparr>mx = 0, my = 0, mz = - 2, timestamp = 5854679515581645 / 2 ^ 53\<rparr>,
      \<lparr>mx = 0, my = 0, mz = 0, timestamp = 6305039478318695 / 2 ^ 53\<rparr>]"
  by (simp add: session_fields(3) dip_samples_def settled_def sample_def tracked_def initialState_def
      enumerate_eq_zip minus64_def stamp_values)

lemma first_timeline_phases:
  "detectSquatPhases (measurements (session dip_samples initialState))
      = Some \<lparr>bottomPoint = Some (1351079888211149 / 2 ^ 51), maxDepth = - 5\<rparr>"
  unfolding first_timeline
  by (simp add: detectSquatPhases_def squatLoop_unfold squatStep_def)

lemma first_session_fields:
  "measurements (component first_session) = measurements (session dip_samples initialState)"
  "timelineObject (component first_session) = 6"
  "squatPhases (component first_session)
     = \<lparr>bottomPoint = Some (1351079888211149 / 2 ^ 51), maxDepth = - 5\<rparr>"
  "disconnectListeners first_session 0 = [(0, [])]"
proof -
  let ?r = "notifyAll (still_samples @ dip_samples) (clicked initialRuntime)"
  have r: "first_session = runEffect (stopTracking clock0 ?r)"
    by (simp add: first_session_def)
  have c: "component ?r = session dip_samples initialState"
    by (simp add: runtime_session initialRuntime_def)
  show "measurements (component first_session) = measurements (session dip_samples initialState)"
    by (simp add: r runEffect_def stopTracking_fields c)
  show "timelineObject (component first_session) = 6"
    by (simp add: r runEffect_def stopTracking_fields c session_fields(5) dip_samples_length
        initialState_def)
  show "squatPhases (component first_session)
     = \<lparr>bottomPoint = Some (1351079888211149 / 2 ^ 51), maxDepth = - 5\<rparr>"
    by (simp add: r runEffect_def stopTracking_fields c first_timeline_phases)
  show "disconnectListeners first_session 0 = [(0, [])]"
    by (simp add: r runEffect_def stopTracking_fields runtime_session initialRuntime_def
        initialState_def addEventListener_def)
qed

lemma second_session_fields:
  "length (measurements (component second_session)) = 2"
  "device second_session = Some 0"
  "gattConnected second_session 0"
  "map snd (disconnectListeners second_session 0)
     = [[]] @ [measurements (session dip_samples initialState)]"
proof -
  show "length (measurements (component second_session)) = 2"
    by (simp add: second_session_def runtime_session session_fields(3) dip_samples_def)
  show "device second_session = Some 0" "gattConnected second_session 0"
    by (simp_all add: second_session_def runtime_session)
  have "measurements (session dip_samples initialState) \<noteq> []"
    by (simp add: session_fields(3) dip_samples_def)
  then show "map snd (disconnectListeners second_session 0)
     = [[]] @ [measurements (session dip_samples initialState)]"
    by (simp add: second_session_def runtime_session first_session_fields addEventListener_def)
qed

subsection \<open>Timelines shorter than three measurements\<close>

lemma stopDisconnect_fired:
  "component (stopDisconnect clk r) =
     fireListeners 0 (\<lambda>k. clk (Suc k)) (firedTimelines r)
       (addDebugMessage (clk 0) ''Stopping tracking...'' (component r))"
  by (simp add: stopDisconnect_def serverDisconnected_def firedTimelines_def Let_def
      split: option.split)

lemma short_gives_None: "length ms < 3 \<Longrightarrow> detectSquatPhases ms = None"
  by (simp add: detectSquatPhases_def)

text \<open>
  Claim C7, as the code has it. On fewer than three measurements \<open>detectSquatPhases\<close>
  returns \<open>null\<close>, not a result, and what \<open>stopTracking\<close> does with its timeline changes
  neither the stored squat phases nor the stored error: they are what the disconnection
  at the start of \<open>stopTracking\<close> has left. The squat phases are those from before the click
  if every timeline held by a listener that the disconnection fires is shorter than three
  measurements as well, and the error is the one from before the click if there is no
  such listener.
\<close>

theorem short_timeline_no_result:
  "length (measurements (component r)) < 3 \<Longrightarrow>
     detectSquatPhases (measurements (component r)) = None
     \<and> squatPhases (component (stopTracking clk r)) = squatPhases (component (stopDisconnect clk r))
     \<and> error (component (stopTracking clk r)) = error (component (stopDisconnect clk r))
     \<and> ((\<forall>ms \<in> set (firedTimelines r). length ms < 3) \<longrightarrow>
          squatPhases (component (stopTracking clk r)) = squatPhases (component r))
     \<and> (firedTimelines r = [] \<longrightarrow>
          error (component (stopTracking clk r)) = error (component r))"
proof -
  assume short: "length (measurements (component r)) < 3"
  then have none: "detectSquatPhases (measurements (component r)) = None"
    by (rule short_gives_None)
  have "squatPhases (component (stopDisconnect clk r)) = squatPhases (component r)"
    if "\<forall>ms \<in> set (firedTimelines r). length ms < 3"
  proof -
    from that have "\<forall>ms \<in> set (firedTimelines r). detectSquatPhases ms = None"
      by (simp add: short_gives_None)
    then show ?thesis
      unfolding stopDisconnect_fired by (simp add: fireListeners_short)
  qed
  moreover have "error (component (stopDisconnect clk r)) = error (component r)"
    if "firedTimelines r = []"
    unfolding stopDisconnect_fired using that by simp
  ultimately show ?thesis
    using none by (simp add: stopTracking_fields)
qed

text \<open>
  A first session of two measurements, stopped: the one listener on the device holds the
  empty timeline of the first render, and the stored squat phases stay the initial ones, no
  bottom and depth 0. Without a device, the stored error stays as well.
\<close>

theorem short_timeline_no_result_witness:
  "length (measurements (component (notifyAll (still_samples @ take 2 dip_samples) (clicked initialRuntime)))) < 3
   \<and> firedTimelines (notifyAll (still_samples @ take 2 dip_samples) (clicked initialRuntime)) = [[]]
   \<and> squatPhases (component (stopTracking clock0
         (notifyAll (still_samples @ take 2 dip_samples) (clicked initialRuntime))))
       = \<lparr>bottomPoint = None, maxDepth = 0\<rparr>
   \<and> length (measurements (component (initialRuntime\<lparr>component := initialState\<lparr>measurements := take 2 rising\<rparr>\<rparr>))) < 3
   \<and> firedTimelines (initialRuntime\<lparr>component := initialState\<lparr>measurements := take 2 rising\<rparr>\<rparr>) = []
   \<and> error (component (stopTracking clock0
         (initialRuntime\<lparr>component := initialState\<lparr>measurements := take 2 rising\<rparr>\<rparr>))) = None"
proof -
  let ?r = "notifyAll (still_samples @ take 2 dip_samples) (clicked initialRuntime)"
  let ?q = "initialRuntime\<lparr>component := initialState\<lparr>measurements := take 2 rising\<rparr>\<rparr>"
  have short: "length (measurements (component ?r)) < 3"
    by (simp add: runtime_session session_fields(3) dip_samples_def)
  have fired: "firedTimelines ?r = [[]]"
    by (simp add: firedTimelines_def runtime_session initialRuntime_def initialState_def
        addEventListener_def)
  have before: "squatPhases (component ?r) = \<lparr>bottomPoint = None, maxDepth = 0\<rparr>"
    by (simp add: runtime_session session_fields(7) initialRuntime_def initialState_def)
  have short': "length (measurements (component ?q)) < 3"
    by (simp add: rising_def)
  have fired': "firedTimelines ?q = []"
    by (simp add: firedTimelines_def initialRuntime_def)
  have before': "error (component ?q) = None"
    by (simp add: initialState_def)
  from short_timeline_no_result [OF short, of clock0]
  have "(\<forall>ms \<in> set (firedTimelines ?r). length ms < 3) \<longrightarrow>
      squatPhases (component (stopTracking clock0 ?r)) = squatPhases (component ?r)"
    by blast
  then have "squatPhases (component (stopTracking clock0 ?r)) = squatPhases (component ?r)"
    by (simp add: fired)
  moreover from short_timeline_no_result [OF short', of clock0]
  have "firedTimelines ?q = [] \<longrightarrow>
      error (component (stopTracking clock0 ?q)) = error (component ?q)"
    by blast
  then have "error (component (stopTracking clock0 ?q)) = error (component ?q)"
    by (simp add: fired')
  ultimately show ?thesis
    by (simp only: short fired before short' fired' before' simp_thms)
qed

text \<open>
  The result is not always \<open>{none, 0}\<close>. A first session finds a bottom; the click that
  starts the second session registers a listener that holds the timeline of the first.
  When the second session is stopped after two measurements, the bottom of the first one
  is what is stored.
\<close>

theorem short_timeline_stale_result_counterexample:
  "length (measurements (component second_session)) = 2
   \<and> detectSquatPhases (measurements (component second_session)) = None
   \<and> squatPhases (component (stopTracking clock0 second_session))
       = \<lparr>bottomPoint = Some (1351079888211149 / 2 ^ 51), maxDepth = - 5\<rparr>
   \<and> squatPhases (component (stopTracking clock0 second_session))
       \<noteq> \<lparr>bottomPoint = None, maxDepth = 0\<rparr>"
proof -
  have len: "length (measurements (component second_session)) = 2"
    by (rule second_session_fields)
  then have none: "detectSquatPhases (measurements (component second_session)) = None"
    by (simp add: short_gives_None)
  have "firedTimelines second_session = [[]] @ [measurements (session dip_samples initialState)]"
    by (simp only: firedTimelines_def second_session_fields option.case if_True)
  then have "squatPhases (component (stopDisconnect clock0 second_session))
      = \<lparr>bottomPoint = Some (1351079888211149 / 2 ^ 51), maxDepth = - 5\<rparr>"
    unfolding stopDisconnect_fired
    by (simp only: fireListeners_last [OF first_timeline_phases])
  with len none show ?thesis
    by (simp add: stopTracking_fields)
qed

subsection \<open>Calibration\<close>

lemma exactFrom_foldl: "exactFrom a xs \<Longrightarrow> foldl plus64 a xs = a + sum_list xs"
  by (induction xs arbitrary: a) (simp_all add: plus64_def)

lemma exactMean_mean64: "exactMean xs \<Longrightarrow> mean64 xs = sum_list xs / real (length xs)"
  by (simp add: exactMean_def mean64_def exactFrom_foldl divide64_def)

text \<open>
  Claim C1, as the code has it. Ten samples of ordinary magnitude, ingested while the mode
  and the ref are Calibrating, from an empty buffer, set the baseline on each axis to the
  mean as doubles give it: the ten values are added one after the other, from zero, each sum rounded to a
  double, and the quotient of the last sum by ten is rounded to a double. On an axis where
  none of these roundings changes a value, that is the arithmetic mean of the ten values.
  And the same ten samples in any other fresh session (another state, other clocks,
  another listener, the effect run at other times) give the same baseline.
\<close>

theorem calibration_baseline_is_rounded_mean:
  "mode s = Calibrating \<Longrightarrow> modeRef s = Calibrating \<Longrightarrow> calibrationSamples s = [] \<Longrightarrow>
   length evs = 10 \<Longrightarrow> \<forall>e \<in> set evs. ordinarySample (sample e) \<Longrightarrow>
     calibration (ingestAll cal evs s)
       = \<lparr>cx = mean64 (map (rx \<circ> sample) evs),
          cy = mean64 (map (ry \<circ> sample) evs),
          cz = mean64 (map (rz \<circ> sample) evs)\<rparr>
     \<and> (exactMean (map (rx \<circ> sample) evs) \<longrightarrow>
          cx (calibration (ingestAll cal evs s)) = sum_list (map (rx \<circ> sample) evs) / 10)
     \<and> (exactMean (map (ry \<circ> sample) evs) \<longrightarrow>
          cy (calibration (ingestAll cal evs s)) = sum_list (map (ry \<circ> sample) evs) / 10)
     \<and> (exactMean (map (rz \<circ> sample) evs) \<longrightarrow>
          cz (calibration (ingestAll cal evs s)) = sum_list (map (rz \<circ> sample) evs) / 10)
     \<and> (mode s' = Calibrating \<and> modeRef s' = Calibrating \<and> calibrationSamples s' = []
          \<and> map sample evs' = map sample evs
          \<longrightarrow> calibration (ingestAll cal' evs' s') = calibration (ingestAll cal evs s))"
proof -
  assume s: "mode s = Calibrating" "modeRef s = Calibrating" "calibrationSamples s = []"
    and len: "length evs = 10"
  note mean = calibration_complete(7) [OF s len, of cal]
  have exact: "mean64 (map (f \<circ> sample) evs) = sum_list (map (f \<circ> sample) evs) / 10"
    if "exactMean (map (f \<circ> sample) evs)" for f :: "RawData \<Rightarrow> real"
    using exactMean_mean64 [OF that] len by simp
  have "calibration (ingestAll cal' evs' s') = calibration (ingestAll cal evs s)"
    if s': "mode s' = Calibrating" "modeRef s' = Calibrating" "calibrationSamples s' = []"
      and same: "map sample evs' = map sample evs"
  proof -
    from same have "length (map sample evs') = length (map sample evs)" by simp
    with len have len': "length evs' = 10" by simp
    have proj: "map (f \<circ> sample) evs' = map (f \<circ> sample) evs" for f :: "RawData \<Rightarrow> real"
      using same by (metis map_map)
    show ?thesis
      unfolding mean calibration_complete(7) [OF s' len', of cal'] proj ..
  qed
  with mean exact show ?thesis by simp
qed

text \<open>
  Two sessions over the samples 1 to 10 (with \<open>y\<close> doubled and \<open>z\<close> negated), where nothing
  is rounded: the first from the initial state, the second after a completed session; both
  baselines are the means 5.5, 11 and -5.5.
\<close>

theorem calibration_baseline_is_rounded_mean_witness:
  "mode (afterConnect initialState) = Calibrating \<and> modeRef (afterConnect initialState) = Calibrating
   \<and> calibrationSamples (afterConnect initialState) = []
   \<and> length still_samples = 10
   \<and> list_all ordinarySample (map sample still_samples)
   \<and> exactMean (map (rx \<circ> sample) still_samples)
   \<and> exactMean (map (ry \<circ> sample) still_samples)
   \<and> exactMean (map (rz \<circ> sample) still_samples)
   \<and> calibration (ingestAll (calibration initialState) still_samples (afterConnect initialState))
       = \<lparr>cx = 11 / 2, cy = 11, cz = - (11 / 2)\<rparr>
   \<and> cx (calibration (ingestAll (calibration initialState) still_samples (afterConnect initialState)))
       = sum_list (map (rx \<circ> sample) still_samples) / 10
   \<and> mode (afterConnect (component first_session)) = Calibrating
   \<and> modeRef (afterConnect (component first_session)) = Calibrating
   \<and> calibrationSamples (afterConnect (component first_session)) = []
   \<and> calibration (ingestAll (calibration (component first_session)) still_samples
         (afterConnect (component first_session)))
       = \<lparr>cx = 11 / 2, cy = 11, cz = - (11 / 2)\<rparr>"
proof -
  let ?s = "afterConnect initialState" and ?s' = "afterConnect (component first_session)"
  have c: "mode ?s = Calibrating" "modeRef ?s = Calibrating" "calibrationSamples ?s = []"
    and c': "mode ?s' = Calibrating" "modeRef ?s' = Calibrating" "calibrationSamples ?s' = []"
    by (simp_all add: afterConnect_fields)
  have sums: "sum_list (map (rx \<circ> sample) still_samples) / 10 = 11 / 2"
    "sum_list (map (ry \<circ> sample) still_samples) / 10 = 11"
    "sum_list (map (rz \<circ> sample) still_samples) / 10 = - (11 / 2)"
    by (simp_all add: still_samples_def settled_def sample_def)
  have "exactFrom 0 (map (rx \<circ> sample) still_samples)"
    "exactFrom 0 (map (ry \<circ> sample) still_samples)"
    "exactFrom 0 (map (rz \<circ> sample) still_samples)"
    by (simp_all add: still_samples_def settled_def sample_def)
  moreover have "round64 (11 / 2) = 11 / 2" "round64 (- (11 / 2)) = - (11 / 2)"
    using round64_dyadic [of 11 1] round64_dyadic [of "- 11" 1] by simp_all
  ultimately have e: "exactMean (map (rx \<circ> sample) still_samples)"
    "exactMean (map (ry \<circ> sample) still_samples)"
    "exactMean (map (rz \<circ> sample) still_samples)"
    unfolding exactMean_def length_map still_samples_length
    by (simp_all only: sums of_nat_numeral simp_thms round64_numeral)
  have ord: "\<forall>e \<in> set still_samples. ordinarySample (sample e)"
    by (simp add: still_samples_def settled_def sample_def ordinarySample_def ordinary_def)
  then have ord': "list_all ordinarySample (map sample still_samples)"
    by (simp only: list_all_iff set_map ball_simps)
  note inst = calibration_baseline_is_rounded_mean [OF c still_samples_length ord,
      of "calibration initialState" ?s' still_samples "calibration (component first_session)"]
  from inst have base: "calibration (ingestAll (calibration initialState) still_samples ?s)
       = \<lparr>cx = 11 / 2, cy = 11, cz = - (11 / 2)\<rparr>"
    by (simp only: still_samples_means)
  from inst e(1) have x: "cx (calibration (ingestAll (calibration initialState) still_samples ?s))
       = sum_list (map (rx \<circ> sample) still_samples) / 10"
    by blast
  from inst c' have "calibration (ingestAll (calibration (component first_session)) still_samples ?s')
      = calibration (ingestAll (calibration initialState) still_samples ?s)"
    by blast
  with base x show ?thesis
    using c c' e still_samples_length ord' by simp
qed

text \<open>
  The baseline is not always the arithmetic mean. Ten samples that all are the double
  \<open>0.1\<close> have that double as their mean, but their sum in doubles is
  \<open>0.9999999999999999\<close> and the baseline is \<open>0.09999999999999999\<close>.
\<close>

theorem calibration_baseline_not_exact_mean_counterexample:
  "mode (afterConnect initialState) = Calibrating
   \<and> modeRef (afterConnect initialState) = Calibrating
   \<and> calibrationSamples (afterConnect initialState) = []
   \<and> length tenth_samples = 10
   \<and> sum_list (map (rx \<circ> sample) tenth_samples) / 10 = 3602879701896397 / 2 ^ 55
   \<and> cx (calibration (ingestAll (calibration initialState) tenth_samples (afterConnect initialState)))
       = 7205759403792793 / 2 ^ 56
   \<and> cx (calibration (ingestAll (calibration initialState) tenth_samples (afterConnect initialState)))
       \<noteq> sum_list (map (rx \<circ> sample) tenth_samples) / 10"
proof -
  let ?s = "afterConnect initialState"
  have c: "mode ?s = Calibrating" "modeRef ?s = Calibrating" "calibrationSamples ?s = []"
    by (simp_all add: afterConnect_fields)
  have ten: "length tenth_samples = 10"
    by (simp add: tenth_samples_def)
  have xs: "map (rx \<circ> sample) tenth_samples = replicate 10 tenth"
    by (simp add: tenth_samples_def settled_def sample_def)
  have mean: "sum_list (map (rx \<circ> sample) tenth_samples) / 10 = 3602879701896397 / 2 ^ 55"
    unfolding xs by (simp add: sum_list_replicate tenth_def)
  have "cx (calibration (ingestAll (calibration initialState) tenth_samples ?s))
      = 7205759403792793 / 2 ^ 56"
    unfolding calibration_complete(7) [OF c ten] xs by (simp add: mean64_tenth)
  with c ten mean show ?thesis by simp
qed

text \<open>
  Claim C2, as the code has it. The listener reads the mode from the ref, which the effect
  sets after a render. When the mode and the ref are Calibrating, a sample adds exactly one
  to the number of calibration samples; the mode after the sample is Tracking when that
  number has reached 10 and Calibrating otherwise, and on reaching 10 the timeline is
  emptied. From an empty buffer, whenever the effect runs between the samples: after fewer
  than ten samples the mode is still Calibrating, after the tenth it is Tracking with an
  empty timeline, and after any ten or more it is Tracking.
\<close>

theorem calibration_count_and_transition:
  "mode s = Calibrating \<Longrightarrow> modeRef s = Calibrating \<Longrightarrow>
     length (calibrationSamples (handleMotionData cal clk (Parsed d) s)) = length (calibrationSamples s) + 1
     \<and> mode (handleMotionData cal clk (Parsed d) s)
         = (if length (calibrationSamples s) + 1 \<ge> 10 then Tracking else Calibrating)
     \<and> (length (calibrationSamples s) + 1 \<ge> 10 \<longrightarrow> measurements (handleMotionData cal clk (Parsed d) s) = [])
     \<and> (calibrationSamples s = [] \<and> length evs < 10 \<longrightarrow>
           mode (ingestAll cal evs s) = Calibrating
           \<and> length (calibrationSamples (ingestAll cal evs s)) = length evs)
     \<and> (calibrationSamples s = [] \<and> length evs = 10 \<longrightarrow>
           mode (ingestAll cal evs s) = Tracking
           \<and> length (calibrationSamples (ingestAll cal evs s)) = 10
           \<and> measurements (ingestAll cal evs s) = [])
     \<and> (calibrationSamples s = [] \<and> length evs \<ge> 10 \<longrightarrow> mode (ingestAll cal evs s) = Tracking)"
proof -
  assume m: "mode s = Calibrating" "modeRef s = Calibrating"
  have step: "handleMotionData cal clk (Parsed d) s = handleCalibrationData clk d s"
    using m(2) by (rule calibrating_step)
  have one: "length (calibrationSamples (handleMotionData cal clk (Parsed d) s)) = length (calibrationSamples s) + 1"
    "mode (handleMotionData cal clk (Parsed d) s)
         = (if length (calibrationSamples s) + 1 \<ge> 10 then Tracking else Calibrating)"
    "length (calibrationSamples s) + 1 \<ge> 10 \<longrightarrow> measurements (handleMotionData cal clk (Parsed d) s) = []"
    unfolding step using m by (simp_all add: handleCalibrationData_fields)
  have before: "mode (ingestAll cal evs s) = Calibrating
           \<and> length (calibrationSamples (ingestAll cal evs s)) = length evs"
    if "calibrationSamples s = []" "length evs < 10"
    using calibrating_run [OF m that, of cal] by simp
  have at: "mode (ingestAll cal evs s) = Tracking
           \<and> length (calibrationSamples (ingestAll cal evs s)) = 10
           \<and> measurements (ingestAll cal evs s) = []"
    if "calibrationSamples s = []" "length evs = 10"
    using calibration_complete(1,3,4) [OF m that, of cal] by simp
  have after: "mode (ingestAll cal evs s) = Tracking"
    if empty: "calibrationSamples s = []" and long: "length evs \<ge> 10"
  proof -
    from long have ten: "length (take 10 evs) = 10" by simp
    have "ingestAll cal evs s = ingestAll cal (drop 10 evs) (ingestAll cal (take 10 evs) s)"
      by (simp add: ingestAll_append [symmetric])
    moreover have "mode (ingestAll cal (take 10 evs) s) = Tracking"
      "10 \<le> length (calibrationSamples (ingestAll cal (take 10 evs) s))"
      using calibration_complete(1,3) [OF m empty ten, of cal] by simp_all
    note tracking_stays [OF this, of cal "drop 10 evs"]
    ultimately show ?thesis by simp
  qed
  from one before at after show ?thesis by blast
qed

text \<open>
  A second session, whose state still holds the five measurements of the first: Calibrating
  after nine samples, Tracking with an empty timeline after the tenth.
\<close>

theorem calibration_count_and_transition_witness:
  "mode (afterConnect (component first_session)) = Calibrating
   \<and> modeRef (afterConnect (component first_session)) = Calibrating
   \<and> calibrationSamples (afterConnect (component first_session)) = []
   \<and> length (measurements (afterConnect (component first_session))) = 5
   \<and> mode (ingestAll (calibration (component first_session)) (take 9 still_samples)
         (afterConnect (component first_session))) = Calibrating
   \<and> length (calibrationSamples
        (ingestAll (calibration (component first_session)) (take 9 still_samples)
           (afterConnect (component first_session)))) = 9
   \<and> mode (ingestAll (calibration (component first_session)) still_samples
         (afterConnect (component first_session))) = Tracking
   \<and> measurements (ingestAll (calibration (component first_session)) still_samples
         (afterConnect (component first_session))) = []"
proof -
  let ?s = "afterConnect (component first_session)" and ?cal = "calibration (component first_session)"
  have c: "mode ?s = Calibrating" "modeRef ?s = Calibrating" "calibrationSamples ?s = []"
    by (simp_all add: afterConnect_fields)
  have five: "length (measurements ?s) = 5"
    by (simp add: afterConnect_fields first_session_fields first_timeline)
  have nine: "length (take 9 still_samples) < 10" "length (take 9 still_samples) = 9"
    by (simp_all add: still_samples_def)
  from calibration_count_and_transition [OF c(1,2), of ?cal _ _ "take 9 still_samples"]
  have "mode (ingestAll ?cal (take 9 still_samples) ?s) = Calibrating"
    "length (calibrationSamples (ingestAll ?cal (take 9 still_samples) ?s)) = 9"
    using c(3) nine by simp_all
  moreover
  from calibration_count_and_transition [OF c(1,2), of ?cal _ _ still_samples]
  have "mode (ingestAll ?cal still_samples ?s) = Tracking"
    "measurements (ingestAll ?cal still_samples ?s) = []"
    using c(3) still_samples_length by simp_all
  ultimately show ?thesis
    using c five by simp
qed

text \<open>
  Not every sample received in mode Calibrating is counted. \<open>connectBLE\<close> ends with the mode
  Calibrating and the listener registered, and the ref still holds Connecting; a sample
  that arrives before the effect has run again is dropped, and the number of calibration
  samples stays 0.
\<close>

theorem calibrating_sample_dropped_counterexample:
  "mode justConnected = Calibrating
   \<and> modeRef justConnected = Connecting
   \<and> length (calibrationSamples justConnected) = 0
   \<and> mode (handleMotionData (calibration initialState) clock0
        (Parsed \<lparr>rx = 1, ry = 2, rz = 3\<rparr>) justConnected) = Calibrating
   \<and> length (calibrationSamples (handleMotionData (calibration initialState) clock0
        (Parsed \<lparr>rx = 1, ry = 2, rz = 3\<rparr>) justConnected)) = 0
   \<and> length (calibrationSamples (handleMotionData (calibration initialState) clock0
        (Parsed \<lparr>rx = 1, ry = 2, rz = 3\<rparr>) justConnected))
       \<noteq> length (calibrationSamples justConnected) + 1"
proof -
  have c: "mode justConnected = Calibrating" "modeRef justConnected = Connecting"
    "calibrationSamples justConnected = []"
    by (simp_all add: justConnected_def connectStart_def connectFinish_def Let_def)
  then have "handleMotionData (calibration initialState) clock0
        (Parsed \<lparr>rx = 1, ry = 2, rz = 3\<rparr>) justConnected = justConnected"
    by (simp add: dropped_step)
  with c show ?thesis by simp
qed

subsection \<open>Tracking\<close>

text \<open>
  With Tracking in the ref the listener appends one measurement whose deviation on each
  axis is the sample's value minus the value of the \<open>calibration\<close> that the listener
  holds, as doubles, and shows the same three values as the current deviation.
\<close>

lemma tracking_step_deviation:
  "modeRef s = Tracking \<Longrightarrow>
     measurements (handleMotionData cal clk (Parsed d) s)
       = measurements s
           @ [\<lparr>mx = minus64 (rx d) (cx cal), my = minus64 (ry d) (cy cal),
               mz = minus64 (rz d) (cz cal),
               timestamp = times64 (real (measurementCount s)) SAMPLE_PERIOD\<rparr>]
     \<and> currentX (handleMotionData cal clk (Parsed d) s) = minus64 (rx d) (cx cal)
     \<and> currentY (handleMotionData cal clk (Parsed d) s) = minus64 (ry d) (cy cal)
     \<and> currentZ (handleMotionData cal clk (Parsed d) s) = minus64 (rz d) (cz cal)"
  by (simp add: handleMotionData_def Let_def addDebugMessage_def)

lemma level_samples_means:
  "mean64 (map (rx \<circ> sample) level_samples) = 1"
  "mean64 (map (ry \<circ> sample) level_samples) = 2"
  "mean64 (map (rz \<circ> sample) level_samples) = 3"
  by (simp_all add: level_samples_def settled_def sample_def mean64_def eval_nat_numeral
      plus64_def divide64_def)

lemma calibrated_fields:
  "mode calibrated = Tracking"
  "modeRef calibrated = Tracking"
  "calibration calibrated = \<lparr>cx = 1, cy = 2, cz = 3\<rparr>"
  "measurements calibrated = []"
  "measurementCount calibrated = 10"
proof -
  have fresh: "mode (afterConnect initialState) = Calibrating"
    "modeRef (afterConnect initialState) = Calibrating"
    "calibrationSamples (afterConnect initialState) = []"
    by (simp_all add: afterConnect_fields)
  have ten: "length level_samples = 10" and last: "fst (last level_samples)"
    by (simp_all add: level_samples_def settled_def)
  note complete = calibration_complete [OF fresh ten, of "calibration initialState"]
  show "mode calibrated = Tracking"
    and "modeRef calibrated = Tracking"
    and "measurements calibrated = []"
    and "measurementCount calibrated = 10"
    using complete(1,2,4,6) last by (simp_all add: calibrated_def afterConnect_fields)
  show "calibration calibrated = \<lparr>cx = 1, cy = 2, cz = 3\<rparr>"
    unfolding calibrated_def complete(7) level_samples_means ..
qed

lemma calibratedRuntime_component:
  "component calibratedRuntime = calibrated"
  "listenerCalibration calibratedRuntime = Some (calibration initialState)"
  using notifyAll_listener [of "clicked initialRuntime" "calibration initialState" level_samples]
  by (simp_all add: calibratedRuntime_def calibrated_def clicked_fields initialRuntime_def)

text \<open>
  A listener that held the baseline \<open>{1, 2, 3}\<close> of the calibrated state would turn the
  sample \<open>{4, 5, 6}\<close> into \<open>{3, 3, 3}\<close>.
\<close>

lemma tracking_step_deviation_example:
  "measurements (handleMotionData (calibration calibrated) clock0
        (Parsed \<lparr>rx = 4, ry = 5, rz = 6\<rparr>) calibrated)
      = [\<lparr>mx = 3, my = 3, mz = 3, timestamp = 1 / 2\<rparr>]"
  by (simp add: tracking_step_fields [OF calibrated_fields(2)] calibrated_fields minus64_def
      stamp_values)

text \<open>
  Claim C5 on the code. A component in its initial state is connected and calibrated at
  rest in \<open>{1, 2, 3}\<close>: the mode is Tracking and the baseline in the hook state is
  \<open>{1, 2, 3}\<close>, but the registered listener holds the \<open>calibration\<close> of the render of the
  click, \<open>{0, 0, 0}\<close>. The sample \<open>{4, 5, 6}\<close> is recorded as \<open>{4, 5, 6}\<close>, not as the sample
  minus the baseline, \<open>{3, 3, 3}\<close>.
\<close>

theorem tracking_subtracts_connect_time_calibration:
  "mode (component calibratedRuntime) = Tracking
   \<and> calibration (component calibratedRuntime) = \<lparr>cx = 1, cy = 2, cz = 3\<rparr>
   \<and> listenerCalibration calibratedRuntime = Some \<lparr>cx = 0, cy = 0, cz = 0\<rparr>
   \<and> measurements (component firstTracked) = [\<lparr>mx = 4, my = 5, mz = 6, timestamp = 1 / 2\<rparr>]
   \<and> measurements (component firstTracked) \<noteq> [\<lparr>mx = 3, my = 3, mz = 3, timestamp = 1 / 2\<rparr>]"
proof -
  have l: "listenerCalibration calibratedRuntime = Some \<lparr>cx = 0, cy = 0, cz = 0\<rparr>"
    by (simp add: calibratedRuntime_component initialState_def)
  have "component firstTracked
      = handleMotionData \<lparr>cx = 0, cy = 0, cz = 0\<rparr> clock0 (Parsed \<lparr>rx = 4, ry = 5, rz = 6\<rparr>) calibrated"
    by (simp add: firstTracked_def notify_def l calibratedRuntime_component)
  then have "measurements (component firstTracked) = [\<lparr>mx = 4, my = 5, mz = 6, timestamp = 1 / 2\<rparr>]"
    by (simp add: tracking_step_fields [OF calibrated_fields(2)] calibrated_fields minus64_def
        stamp_values)
  with l show ?thesis
    by (simp add: calibratedRuntime_component calibrated_fields)
qed

text \<open>
  Claim C3 on the code. The counter of the synthetic timestamps is set to zero by
  \<open>connectBLE\<close> only, and \<open>handleCalibrationData\<close> increments it as well: after the ten
  calibration samples of a session from the initial state it stands at 10, and the five
  measurements that follow are stamped with the doubles 10 \<times> 0.05 to 14 \<times> 0.05, which
  print as 0.5, 0.55, 0.6000000000000001, 0.65 and 0.7000000000000001; the first one is
  not 0 \<times> 0.05.
\<close>

theorem tracking_timestamps_continue_calibration_count:
  "measurementCount (session [] initialState) = 10
   \<and> map timestamp (measurements (session dip_samples initialState))
       = [1 / 2, 2476979795053773 / 2 ^ 52, 1351079888211149 / 2 ^ 51,
          5854679515581645 / 2 ^ 53, 6305039478318695 / 2 ^ 53]
   \<and> map timestamp (measurements (session dip_samples initialState))
       = map (\<lambda>i. times64 (real (10 + i)) SAMPLE_PERIOD) [0, 1, 2, 3, 4]
   \<and> timestamp (measurements (session dip_samples initialState) ! 0) \<noteq> times64 0 SAMPLE_PERIOD"
proof -
  have "times64 0 SAMPLE_PERIOD = 0"
    by (simp add: times64_def)
  then show ?thesis
    by (simp add: session_fields(4) first_timeline stamp_values)
qed

subsection \<open>Final statistics\<close>

lemma horizontalDeviation_nonneg: "0 \<le> horizontalDeviation m"
proof -
  have "0 \<le> pow2_64 a" for a
    by (simp add: pow2_64_def times64_def round64_nonneg)
  then have "0 \<le> plus64 (pow2_64 (mx m)) (pow2_64 (mz m))"
    by (simp add: plus64_def round64_nonneg)
  then show ?thesis
    by (simp add: horizontalDeviation_def sqrt64_def round64_nonneg)
qed

lemma foldl_statsStep:
  "foldl statsStep (a, t) ms
     = (fold max (map horizontalDeviation ms) a, foldl plus64 t (map horizontalDeviation ms))"
  by (induction ms arbitrary: a t) (simp_all add: statsStep_def max.commute)

lemma fold_max_zero:
  assumes "ms \<noteq> []"
  shows "fold max (map horizontalDeviation ms) 0 = Max (set (map horizontalDeviation ms))"
proof -
  let ?S = "set (map horizontalDeviation ms)"
  have fin: "finite ?S" and ne: "?S \<noteq> {}"
    using assms by simp_all
  have "fold max (map horizontalDeviation ms) 0 = Max (set (0 # map horizontalDeviation ms))"
    by (rule Max.set_eq_fold [symmetric])
  also have "\<dots> = max 0 (Max ?S)"
    using fin ne by simp
  also have "\<dots> = Max ?S"
  proof -
    from Max_in [OF fin ne] have "0 \<le> Max ?S"
      using horizontalDeviation_nonneg by auto
    then show ?thesis by simp
  qed
  finally show ?thesis .
qed

lemma finalStats_calculateFinalStats:
  assumes "ms \<noteq> []"
  shows "finalStats (calculateFinalStats ms clk s) =
       Some \<lparr>maxDeviation = toFixed (Max (set (map horizontalDeviation ms))) 2,
             avgDeviation = toFixed (mean64 (map horizontalDeviation ms)) 2,
             duration = toFixed (timestamp (last ms)) 2,
             samples = length ms\<rparr>"
proof -
  have acc: "foldl statsStep (0, 0) ms
      = (Max (set (map horizontalDeviation ms)), foldl plus64 0 (map horizontalDeviation ms))"
    using assms by (simp add: foldl_statsStep fold_max_zero)
  have quotient: "quotientToFixed (foldl plus64 0 (map horizontalDeviation ms)) (real (length ms)) 2
      = toFixed (mean64 (map horizontalDeviation ms)) 2"
    using assms by (simp add: quotientToFixed_def js_div_def mean64_def)
  show ?thesis
    using assms by (simp add: calculateFinalStats_def Let_def acc quotient last_conv_nth)
qed

lemma toFixed_examples:
  "toFixed 5 2 = ''5.00''" "toFixed (5 / 2) 2 = ''2.50''"
  "toFixed (2476979795053773 / 2 ^ 52) 2 = ''0.55''"
  "toFixed (3 / 8) 2 = ''0.38''" "toFixed 0 2 = ''0.00''"
  "toFixed (5404319552844595 / 2 ^ 56) 2 = ''0.07''" "toFixed (3 / 40) 2 = ''0.08''"
  by (simp_all add: toFixed_def Let_def digits.simps digit_char_def)

lemma sqrt_values: "sqrt 25 = 5" "sqrt (9 / 64) = 3 / 8"
  by (rule real_sqrt_unique; simp add: power2_eq_square)+

lemma stats_example_deviations:
  "map horizontalDeviation stats_example = [5, 0]"
  "map exactDeviation stats_example = [5, 0]"
  by (simp_all add: stats_example_def horizontalDeviation_def exactDeviation_def sqrt_values
      sqrt64_def plus64_def pow2_64_def times64_def)

lemma uneven_example_deviations:
  "map horizontalDeviation uneven_example = [3 / 8, 0, 0, 0, 0]"
  "map exactDeviation uneven_example = [3 / 8, 0, 0, 0, 0]"
proof -
  have "horizontalDeviation \<lparr>mx = 3 / 8, my = 0, mz = 0, timestamp = 0\<rparr> = 3 / 8"
    unfolding horizontalDeviation_def sqrt64_def plus64_def pow2_64_def times64_def
    by (simp add: small_values sqrt_values)
  moreover have "exactDeviation \<lparr>mx = 3 / 8, my = 0, mz = 0, timestamp = 0\<rparr> = 3 / 8"
    unfolding exactDeviation_def by (simp add: power2_eq_square sqrt_values)
  moreover have "horizontalDeviation \<lparr>mx = 0, my = 0, mz = 0, timestamp = 0\<rparr> = 0"
    "exactDeviation \<lparr>mx = 0, my = 0, mz = 0, timestamp = 0\<rparr> = 0"
    by (simp_all add: horizontalDeviation_def exactDeviation_def sqrt64_def plus64_def
        pow2_64_def times64_def)
  ultimately show "map horizontalDeviation uneven_example = [3 / 8, 0, 0, 0, 0]"
    "map exactDeviation uneven_example = [3 / 8, 0, 0, 0, 0]"
    by (simp_all add: uneven_example_def eval_nat_numeral)
qed

lemma uneven_example_mean64:
  "mean64 [3 / 8, 0, 0, 0, 0] = 5404319552844595 / 2 ^ 56"
proof -
  have "foldl plus64 0 [3 / 8, 0, 0, 0, 0] = 3 / 8"
    by (simp add: plus64_def small_values)
  then show ?thesis
    unfolding mean64_def by (simp only: quotient_values list.size) (simp add: quotient_values)
qed

text \<open>
  Claim C6, as the code has it. On a timeline that is not empty, of measurements of
  ordinary magnitude, \<open>calculateFinalStats\<close> stores four values: the maximum over the timeline of the horizontal deviation as doubles
  give it (the root of the sum of the squares of \<open>x\<close> and \<open>z\<close>, each operation rounded to a
  double; \<open>y\<close> has no part in it), printed with two decimals; the mean of these deviations
  as doubles give it (added up one after the other from zero, each sum rounded, and the
  quotient by the length rounded), printed with two decimals; the timestamp of the last
  measurement, printed with two decimals; and the length of the timeline. Where no
  operation rounds, the first two are the maximum and the arithmetic mean of
  \<open>sqrt (x\<^sup>2 + z\<^sup>2)\<close>, printed with two decimals.
\<close>

theorem finalStats_of_timeline:
  "ms \<noteq> [] \<Longrightarrow> \<forall>m \<in> set ms. ordinaryMeasurement m \<Longrightarrow>
     finalStats (calculateFinalStats ms clk s) =
       Some \<lparr>maxDeviation = toFixed (Max (set (map horizontalDeviation ms))) 2,
             avgDeviation = toFixed (mean64 (map horizontalDeviation ms)) 2,
             duration = toFixed (timestamp (last ms)) 2,
             samples = length ms\<rparr>
     \<and> ((\<forall>m \<in> set ms. horizontalDeviation m = exactDeviation m)
          \<and> exactMean (map exactDeviation ms) \<longrightarrow>
        finalStats (calculateFinalStats ms clk s) =
          Some \<lparr>maxDeviation = toFixed (Max (set (map exactDeviation ms))) 2,
                avgDeviation = toFixed (sum_list (map exactDeviation ms) / real (length ms)) 2,
                duration = toFixed (timestamp (last ms)) 2,
                samples = length ms\<rparr>)"
proof -
  assume nonempty: "ms \<noteq> []"
  note stats = finalStats_calculateFinalStats [OF nonempty, of clk s]
  have "finalStats (calculateFinalStats ms clk s) =
          Some \<lparr>maxDeviation = toFixed (Max (set (map exactDeviation ms))) 2,
                avgDeviation = toFixed (sum_list (map exactDeviation ms) / real (length ms)) 2,
                duration = toFixed (timestamp (last ms)) 2,
                samples = length ms\<rparr>"
    if same: "\<forall>m \<in> set ms. horizontalDeviation m = exactDeviation m"
      and exact: "exactMean (map exactDeviation ms)"
  proof -
    from same have "map horizontalDeviation ms = map exactDeviation ms"
      by simp
    with stats exactMean_mean64 [OF exact] show ?thesis
      by simp
  qed
  with stats show ?thesis by blast
qed

text \<open>
  The specification's instance, in which nothing is rounded: \<open>{x: 3, z: 4}\<close> and
  \<open>{x: 0, z: 0}\<close> give maximum 5.00, mean 2.50, two samples and the last timestamp as
  duration.
\<close>

theorem finalStats_of_timeline_witness:
  "stats_example \<noteq> []
   \<and> list_all ordinaryMeasurement stats_example
   \<and> list_all (\<lambda>m. horizontalDeviation m = exactDeviation m) stats_example
   \<and> exactMean (map exactDeviation stats_example)
   \<and> toFixed (Max (set (map exactDeviation stats_example))) 2 = ''5.00''
   \<and> toFixed (sum_list (map exactDeviation stats_example) / real (length stats_example)) 2 = ''2.50''
   \<and> finalStats (calculateFinalStats stats_example clock0 initialState)
       = Some \<lparr>maxDeviation = ''5.00'', avgDeviation = ''2.50'', duration = ''0.55'', samples = 2\<rparr>"
proof -
  have ne: "stats_example \<noteq> []"
    by (simp add: stats_example_def)
  have l: "timestamp (last stats_example) = 2476979795053773 / 2 ^ 52" "length stats_example = 2"
    by (simp_all add: stats_example_def)
  have same: "\<forall>m \<in> set stats_example. horizontalDeviation m = exactDeviation m"
    using stats_example_deviations by (simp add: stats_example_def)
  have "round64 (5 / 2) = 5 / 2"
    using round64_dyadic [of 5 1] by simp
  then have exact: "exactMean (map exactDeviation stats_example)"
    unfolding stats_example_deviations by (simp add: exactMean_def)
  have ord: "\<forall>m \<in> set stats_example. ordinaryMeasurement m"
    by (simp add: stats_example_def ordinaryMeasurement_def ordinary_def)
  then have ord': "list_all ordinaryMeasurement stats_example"
    by (simp only: list_all_iff)
  from finalStats_of_timeline [OF ne ord, of clock0 initialState] same exact
  have "finalStats (calculateFinalStats stats_example clock0 initialState) =
          Some \<lparr>maxDeviation = toFixed (Max (set (map exactDeviation stats_example))) 2,
                avgDeviation = toFixed (sum_list (map exactDeviation stats_example)
                                 / real (length stats_example)) 2,
                duration = toFixed (timestamp (last stats_example)) 2,
                samples = length stats_example\<rparr>"
    by blast
  moreover have p: "toFixed (Max (set (map exactDeviation stats_example))) 2 = ''5.00''"
    "toFixed (sum_list (map exactDeviation stats_example) / real (length stats_example)) 2 = ''2.50''"
    unfolding stats_example_deviations l by (simp_all add: toFixed_examples)
  ultimately have "finalStats (calculateFinalStats stats_example clock0 initialState)
       = Some \<lparr>maxDeviation = ''5.00'', avgDeviation = ''2.50'', duration = ''0.55'', samples = 2\<rparr>"
    by (simp only: p l toFixed_examples)
  moreover from same
  have "list_all (\<lambda>m. horizontalDeviation m = exactDeviation m) stats_example"
    by (simp only: list_all_iff)
  ultimately show ?thesis
    using ne exact p ord' by (simp only: simp_thms)
qed

text \<open>
  The stored mean is not always the arithmetic mean with two decimals. One deviation of
  0.375 and four of zero have the mean 0.075, which prints as 0.08; the quotient of the
  doubles 0.375 and 5 is a double below 0.075, and the stored mean is 0.07.
\<close>

theorem finalStats_mean_rounded_down_counterexample:
  "uneven_example \<noteq> []
   \<and> sum_list (map exactDeviation uneven_example) / real (length uneven_example) = 3 / 40
   \<and> toFixed (sum_list (map exactDeviation uneven_example) / real (length uneven_example)) 2
       = ''0.08''
   \<and> finalStats (calculateFinalStats uneven_example clock0 initialState)
       = Some \<lparr>maxDeviation = ''0.38'', avgDeviation = ''0.07'', duration = ''0.00'', samples = 5\<rparr>"
proof -
  have ne: "uneven_example \<noteq> []"
    by (simp add: uneven_example_def)
  have l: "timestamp (last uneven_example) = 0" "length uneven_example = 5"
    by (simp_all add: uneven_example_def)
  have mean: "sum_list (map exactDeviation uneven_example) / real (length uneven_example) = 3 / 40"
    unfolding uneven_example_deviations l by simp
  have largest: "Max (set [3 / 8, 0, 0, 0, 0]) = (3 / 8 :: real)"
    by simp
  have "finalStats (calculateFinalStats uneven_example clock0 initialState)
       = Some \<lparr>maxDeviation = ''0.38'', avgDeviation = ''0.07'', duration = ''0.00'', samples = 5\<rparr>"
    unfolding finalStats_calculateFinalStats [OF ne] uneven_example_deviations
      uneven_example_mean64 l largest
    by (simp only: toFixed_examples)
  moreover
  have "toFixed (sum_list (map exactDeviation uneven_example) / real (length uneven_example)) 2
       = ''0.08''"
    unfolding mean by (rule toFixed_examples)
  ultimately show ?thesis
    using ne mean by (simp only: simp_thms)
qed

lemma fireListeners_empty:
  "\<forall>ms \<in> set mss. ms = [] \<Longrightarrow> finalStats (fireListeners i clk mss s) = finalStats s"
  by (induction mss arbitrary: i s) (simp_all add: handleDisconnect_def Let_def)

text \<open>
  Claim C8. With an empty timeline \<open>calculateFinalStats\<close> returns the state unchanged, so
  that the statistics stored before stay. They stay through a click on the stop button as
  well: what \<open>stopTracking\<close> does with an empty timeline leaves the statistics as the
  disconnection at its start has left them, and these are the ones from before the click
  if every listener that the disconnection fires holds an empty timeline too. And where
  the mean is computed the divisor is not zero.
\<close>

theorem finalize_empty_timeline:
  "(ms = [] \<longrightarrow> calculateFinalStats ms clk s = s)
   \<and> (measurements (component r) = [] \<longrightarrow>
        calculateFinalStats (measurements (component r)) clk (component r) = component r
        \<and> finalStats (component (stopTracking clk r)) = finalStats (component (stopDisconnect clk r))
        \<and> ((\<forall>ms' \<in> set (firedTimelines r). ms' = []) \<longrightarrow>
             finalStats (component (stopTracking clk r)) = finalStats (component r)))
   \<and> (ms \<noteq> [] \<longrightarrow>
        js_div (snd (foldl statsStep (0, 0) ms)) (real (length ms)) \<noteq> None)"
proof -
  have "finalStats (component (stopTracking clk r)) = finalStats (component (stopDisconnect clk r))"
    if "measurements (component r) = []"
    using that by (simp add: stopTracking_def Let_def stopDisconnect_fields)
  moreover have "finalStats (component (stopDisconnect clk r)) = finalStats (component r)"
    if "\<forall>ms' \<in> set (firedTimelines r). ms' = []"
    unfolding stopDisconnect_fired using that by (simp add: fireListeners_empty)
  ultimately show ?thesis
    by (simp add: js_div_def)
qed

text \<open>
  A session that follows one with statistics is stopped before its first measurement: the
  listener on the device holds the empty timeline of the render of the click, and the
  statistics of the earlier session stay.
\<close>

theorem finalize_empty_timeline_witness:
  "calculateFinalStats [] clock0 (initialState\<lparr>finalStats := Some earlier_stats\<rparr>)
       = initialState\<lparr>finalStats := Some earlier_stats\<rparr>
   \<and> measurements (component (notifyAll still_samples
          (clicked (initialRuntime\<lparr>component := initialState\<lparr>finalStats := Some earlier_stats\<rparr>\<rparr>)))) = []
   \<and> firedTimelines (notifyAll still_samples
          (clicked (initialRuntime\<lparr>component := initialState\<lparr>finalStats := Some earlier_stats\<rparr>\<rparr>))) = [[]]
   \<and> finalStats (component (stopTracking clock0 (notifyAll still_samples
          (clicked (initialRuntime\<lparr>component := initialState\<lparr>finalStats := Some earlier_stats\<rparr>\<rparr>)))))
       = Some earlier_stats
   \<and> stats_example \<noteq> []
   \<and> js_div (snd (foldl statsStep (0, 0) stats_example)) (real (length stats_example)) = Some (5 / 2)"
proof -
  let ?s = "initialState\<lparr>finalStats := Some earlier_stats\<rparr>"
  let ?q = "initialRuntime\<lparr>component := ?s\<rparr>"
  let ?r = "notifyAll still_samples (clicked ?q)"
  note session = runtime_session [of "[]" ?q, unfolded append_Nil2]
  have r0: "component ?q = ?s" "disconnectListeners ?q 0 = []"
    by (simp_all add: initialRuntime_def)
  have e: "measurements (component ?r) = []"
    unfolding session(1) by (simp add: session_fields(3))
  have "disconnectListeners ?r 0 =
      addEventListener (timelineObject (component ?q), measurements (component ?q))
        (disconnectListeners ?q 0)"
    by (rule session(5))
  also have "\<dots> = [(0, [])]"
    unfolding r0 by (simp add: addEventListener_def initialState_def)
  finally have fired: "firedTimelines ?r = [[]]"
    by (simp only: firedTimelines_def session(3,4) option.case if_True list.map snd_conv)
  have before: "finalStats (component ?r) = Some earlier_stats"
    unfolding session(1) session_fields(8) by simp
  have ne: "stats_example \<noteq> []"
    by (simp add: stats_example_def)
  have q: "js_div (snd (foldl statsStep (0, 0) stats_example)) (real (length stats_example)) = Some (5 / 2)"
  proof -
    have "length stats_example = 2"
      by (simp add: stats_example_def)
    then show ?thesis
      by (simp add: foldl_statsStep stats_example_deviations js_div_def plus64_def quotient_values)
  qed
  note inst = finalize_empty_timeline [of "[]" clock0 ?s ?r]
  from inst have "calculateFinalStats [] clock0 ?s = ?s"
    by blast
  moreover from inst e
  have "(\<forall>ms' \<in> set (firedTimelines ?r). ms' = []) \<longrightarrow>
      finalStats (component (stopTracking clock0 ?r)) = finalStats (component ?r)"
    by blast
  then have "finalStats (component (stopTracking clock0 ?r)) = Some earlier_stats"
    by (simp add: fired before)
  ultimately show ?thesis
    using e fired ne q by simp
qed

end
